theory Spec2Isabelle
  imports Main "HOL-Library.Sublist"
begin

section \<open>Document ingestion pipeline: data model\<close>

text \<open>
  The pipeline lives in three Deno edge functions:
  \<^verbatim>\<open>supabase/functions/process-document/index.ts\<close> (extraction, batching, chunking, job
  lifecycle), \<^verbatim>\<open>supabase/functions/cleanup-stuck-documents/index.ts\<close> (the sweeper) and
  \<^verbatim>\<open>supabase/functions/chat/index.ts\<close> (the retrieval scorer).

  Strings are lists of 8-bit characters, read as the UTF-16 code units U+0000 to U+00FF;
  \<open>length\<close> is then JavaScript's \<^verbatim>\<open>.length\<close>. Timestamps are milliseconds since the
  epoch (what \<^verbatim>\<open>Date.now()\<close> returns); the ISO strings the code passes to the database
  are compared there as timestamps, so the model compares the numbers.
\<close>

datatype source_status = Pending | Processing | Ready | Error

text \<open>A row of the table \<^verbatim>\<open>sources\<close> (the columns the pipeline reads or writes).\<close>

record source =
  id_col :: string
  name_col :: string
  file_path :: string
  file_type :: string
  file_size :: nat
  status :: source_status
  error_message :: "string option"
  uploaded_by :: string
  content_preview :: "string option"
  page_count :: "nat option"
  processing_progress :: "nat option"
  processing_info :: "string option"
  processing_started_at :: "int option"
  updated_at :: int

text \<open>
  \<^verbatim>\<open>supabase.from("sources").update(f).eq("id", i)\<close>: every row whose id is \<open>i\<close> is
  changed, whatever its current status; no row with that id is a no-op.
\<close>

definition update_source :: "string \<Rightarrow> (source \<Rightarrow> source) \<Rightarrow> source list \<Rightarrow> source list" where
  "update_source i f rows = map (\<lambda>r. if id_col r = i then f r else r) rows"

subsection \<open>Numbers in template literals\<close>

definition digit_char :: "nat \<Rightarrow> char" where
  "digit_char d = ''0123456789'' ! d"

fun show_nat :: "nat \<Rightarrow> string" where
  "show_nat n = (if n < 10 then [digit_char n] else show_nat (n div 10) @ [digit_char (n mod 10)])"

declare show_nat.simps [simp del]

definition show_int :: "int \<Rightarrow> string" where
  "show_int i = (if i < 0 then CHR ''-'' # show_nat (nat (- i)) else show_nat (nat i))"

section \<open>Stuck-job sweeper (cleanup-stuck-documents)\<close>

definition STUCK_THRESHOLD_MINUTES :: int where
  "STUCK_THRESHOLD_MINUTES = 10"

text \<open>
  The selection
  \<^verbatim>\<open>.in("status", ["processing", "pending"])
   .or(`processing_started_at.lt.T,and(processing_started_at.is.null,updated_at.lt.T)`)\<close>.
  A comparison with a null \<^verbatim>\<open>processing_started_at\<close> is not true in SQL, so the first
  disjunct needs the column to be set and the second needs it to be null.
\<close>

definition is_stuck :: "int \<Rightarrow> source \<Rightarrow> bool" where
  "is_stuck thresholdTime d \<longleftrightarrow>
     (status d = Processing \<or> status d = Pending) \<and>
     (case processing_started_at d of
        Some t \<Rightarrow> t < thresholdTime
      | None \<Rightarrow> updated_at d < thresholdTime)"

text \<open>
  \<^verbatim>\<open>Math.round((Date.now() - new Date(startTime).getTime()) / 60000)\<close>: rounding to the
  nearest integer, halves upwards, which on integers is a floor division.
\<close>

definition stuckMinutes :: "int \<Rightarrow> source \<Rightarrow> int" where
  "stuckMinutes now d =
     (let startTime = (case processing_started_at d of Some t \<Rightarrow> t | None \<Rightarrow> updated_at d)
      in (now - startTime + 30000) div 60000)"

definition mark_stuck :: "int \<Rightarrow> source \<Rightarrow> source \<Rightarrow> source" where
  "mark_stuck now doc r =
     r\<lparr>status := Error,
       error_message := Some (''Processing timed out after '' @ show_int (stuckMinutes now doc) @
                              '' minutes. Click Reprocess to try again.''),
       processing_progress := None,
       processing_info := None\<rparr>"

text \<open>
  One pass of the handler at time \<open>now\<close> (one clock reading stands for the handler's
  \<^verbatim>\<open>Date.now()\<close> calls): select the stuck rows, then update each of them by id.
\<close>

definition cleanup_stuck_documents :: "int \<Rightarrow> source list \<Rightarrow> source list" where
  "cleanup_stuck_documents now rows =
     (let thresholdTime = now - STUCK_THRESHOLD_MINUTES * 60 * 1000;
          stuckDocs = filter (is_stuck thresholdTime) rows
      in foldl (\<lambda>db doc. update_source (id_col doc) (mark_stuck now doc) db) rows stuckDocs)"

section \<open>Retrying transport (fetchWithRetry, handleAiError)\<close>

text \<open>
  One attempt of \<^verbatim>\<open>fetch\<close> either resolves to a response or throws. Of a response the
  code reads the status and, when the status is ok, the body:
  \<^verbatim>\<open>const data = await response.json();
  const text = data.choices?.[0]?.message?.content || "";\<close>
  \<open>Response st text\<close> is a response with status \<open>st\<close> from whose body these two lines read
  \<open>text\<close> (empty when the content is absent). \<open>UnreadableResponse st err\<close> is a response
  with status \<open>st\<close> on whose body they throw the error with message \<open>err\<close>: the body is not
  JSON and \<^verbatim>\<open>response.json()\<close> rejects, or it is the JSON value \<^verbatim>\<open>null\<close>.
  \<open>NetworkError err\<close> is \<^verbatim>\<open>fetch\<close> throwing.
\<close>

datatype attempt = Response nat string | UnreadableResponse nat string | NetworkError string

text \<open>
  The loop of \<^verbatim>\<open>fetchWithRetry\<close>, from attempt number \<open>attempt\<close> on. \<open>fetch k\<close> is the
  outcome of the call made in iteration \<open>k\<close>. The result is the list of the delays slept
  (milliseconds) and either the message of the error thrown or the response returned: its
  status and what reading its body gives (the message of the error thrown, or the text).
\<close>

function fetchWithRetry_loop ::
  "(nat \<Rightarrow> attempt) \<Rightarrow> nat \<Rightarrow> nat \<Rightarrow> string option \<Rightarrow> nat list \<Rightarrow>
   nat list \<times> (string + nat \<times> (string + string))"
where
  "fetchWithRetry_loop fetch maxRetries attempt lastError waits =
     (if attempt < maxRetries then
        (case fetch attempt of
           Response st body \<Rightarrow>
             if 400 \<le> st \<and> st < 500 \<and> st \<noteq> 429 then (waits, Inr (st, Inr body))
             else if 500 \<le> st \<or> st = 429 then
               fetchWithRetry_loop fetch maxRetries (attempt + 1) lastError
                 (waits @ [2 ^ attempt * 1000])
             else (waits, Inr (st, Inr body))
         | UnreadableResponse st err \<Rightarrow>
             if 400 \<le> st \<and> st < 500 \<and> st \<noteq> 429 then (waits, Inr (st, Inl err))
             else if 500 \<le> st \<or> st = 429 then
               fetchWithRetry_loop fetch maxRetries (attempt + 1) lastError
                 (waits @ [2 ^ attempt * 1000])
             else (waits, Inr (st, Inl err))
         | NetworkError msg \<Rightarrow>
             fetchWithRetry_loop fetch maxRetries (attempt + 1) (Some msg)
               (waits @ [2 ^ attempt * 1000]))
      else (waits, Inl (case lastError of Some e \<Rightarrow> e | None \<Rightarrow> ''Max retries exceeded'')))"
  by pat_completeness auto
termination
  by (relation "measure (\<lambda>(fetch, maxRetries, attempt, lastError, waits). maxRetries - attempt)") auto

declare fetchWithRetry_loop.simps [simp del]

definition fetchWithRetry ::
  "(nat \<Rightarrow> attempt) \<Rightarrow> nat \<Rightarrow> nat list \<times> (string + nat \<times> (string + string))" where
  "fetchWithRetry fetch maxRetries = fetchWithRetry_loop fetch maxRetries 0 None []"

text \<open>
  \<^verbatim>\<open>handleAiError\<close>: always throws; the message depends on the status. (It reads the body
  with \<^verbatim>\<open>response.text()\<close>, for the log only.)
\<close>

definition handleAiError :: "nat \<Rightarrow> string" where
  "handleAiError st =
     (if st = 429 then ''AI rate limit exceeded. Please try again in a few minutes.''
      else if st = 402 then ''AI credits exhausted. Please add funds to continue.''
      else ''AI extraction failed ('' @ show_nat st @ '')'')"

text \<open>
  What every extraction function does with the transport:
  \<^verbatim>\<open>const response = await fetchWithRetry(url, options, 3);
  if (!response.ok) { await handleAiError(response); }
  const data = await response.json();
  const text = data.choices?.[0]?.message?.content || "";\<close>
  \<^verbatim>\<open>response.ok\<close> is a status from 200 to 299. The result is the text, or the message of
  the error thrown: by \<^verbatim>\<open>fetchWithRetry\<close>, by \<^verbatim>\<open>handleAiError\<close>, or while the body is read.
\<close>

definition ai_call :: "(nat \<Rightarrow> attempt) \<Rightarrow> string + string" where
  "ai_call fetch =
     (case snd (fetchWithRetry fetch 3) of
        Inl e \<Rightarrow> Inl e
      | Inr (st, content) \<Rightarrow> if 200 \<le> st \<and> st \<le> 299 then content else Inl (handleAiError st))"

section \<open>Strings as the code uses them\<close>

text \<open>
  The character classes of the regular expressions, on the code units modelled:
  \<^verbatim>\<open>\s\<close> (also what \<^verbatim>\<open>trim()\<close> strips) is tab, line feed, vertical tab, form feed,
  carriage return, space and no-break space; \<^verbatim>\<open>\w\<close> is \<^verbatim>\<open>[A-Za-z0-9_]\<close>.
\<close>

definition is_space :: "char \<Rightarrow> bool" where
  "is_space c \<longleftrightarrow> c \<in> set [CHR 0x09, CHR 0x0A, CHR 0x0B, CHR 0x0C, CHR 0x0D, CHR '' '', CHR 0xA0]"

definition is_upper :: "char \<Rightarrow> bool" where
  "is_upper c \<longleftrightarrow> c \<in> set ''ABCDEFGHIJKLMNOPQRSTUVWXYZ''"

definition is_lower :: "char \<Rightarrow> bool" where
  "is_lower c \<longleftrightarrow> c \<in> set ''abcdefghijklmnopqrstuvwxyz''"

definition is_digit :: "char \<Rightarrow> bool" where
  "is_digit c \<longleftrightarrow> c \<in> set ''0123456789''"

definition is_word :: "char \<Rightarrow> bool" where
  "is_word c \<longleftrightarrow> is_lower c \<or> is_upper c \<or> is_digit c \<or> c = CHR ''_''"

definition is_line_terminator :: "char \<Rightarrow> bool" where
  "is_line_terminator c \<longleftrightarrow> c = CHR 0x0A \<or> c = CHR 0x0D"

definition trim :: "string \<Rightarrow> string" where
  "trim s = rev (dropWhile is_space (rev (dropWhile is_space s)))"

text \<open>\<^verbatim>\<open>s.slice(-n)\<close>: the last \<open>n\<close> code units, all of \<open>s\<close> when it is shorter.\<close>

definition slice_last :: "nat \<Rightarrow> string \<Rightarrow> string" where
  "slice_last n s = drop (length s - n) s"

text \<open>\<^verbatim>\<open>xs.join(sep)\<close>.\<close>

fun join :: "string \<Rightarrow> string list \<Rightarrow> string" where
  "join sep [] = []"
| "join sep [x] = x"
| "join sep (x # y # ys) = x @ sep @ join sep (y # ys)"

text \<open>
  \<^verbatim>\<open>s.replace(/pat/g, rep)\<close> for a pattern of literal characters: scan from the left, at a
  match emit the replacement and go on after the match.
\<close>

function replace_all :: "string \<Rightarrow> string \<Rightarrow> string \<Rightarrow> string" where
  "replace_all pat rep [] = []"
| "replace_all pat rep (c # cs) =
     (if pat \<noteq> [] \<and> prefix pat (c # cs)
      then rep @ replace_all pat rep (drop (length pat - 1) cs)
      else c # replace_all pat rep cs)"
  by pat_completeness auto
termination
  by (relation "measure (\<lambda>(pat, rep, t). length t)") auto

section \<open>Chunker (splitIntoSentences, splitIntoSmartChunks)\<close>

definition CHUNK_SIZE_TOKENS :: nat where "CHUNK_SIZE_TOKENS = 500"
definition CHUNK_OVERLAP_TOKENS :: nat where "CHUNK_OVERLAP_TOKENS = 100"
definition CHARS_PER_TOKEN :: nat where "CHARS_PER_TOKEN = 4"

definition abbreviations :: "string list" where
  "abbreviations = [''mr'', ''mrs'', ''ms'', ''dr'', ''prof'', ''sr'', ''jr'', ''vs'', ''etc'', ''inc'',
     ''ltd'', ''co'', ''corp'', ''st'', ''ave'', ''blvd'', ''e.g'', ''i.e'', ''fig'', ''vol'', ''no'', ''pp'']"

text \<open>
  \<^verbatim>\<open>new RegExp(`\\b${abbr}\\.`, 'gi')\<close>. The abbreviation is pasted into the pattern
  unescaped, so the dot inside \<^verbatim>\<open>e.g\<close> and \<^verbatim>\<open>i.e\<close> is the wildcard (any character but
  a line terminator); the other pattern characters are lower-case letters, which the
  flag \<^verbatim>\<open>i\<close> lets match themselves and their upper-case forms. \<open>match_abbr abbr t\<close>: the
  abbreviation and then a literal dot match at the front of \<open>t\<close>.
\<close>

definition ascii_upper :: "char \<Rightarrow> char" where
  "ascii_upper c =
     (case map_of (zip ''abcdefghijklmnopqrstuvwxyz'' ''ABCDEFGHIJKLMNOPQRSTUVWXYZ'') c of
        Some u \<Rightarrow> u | None \<Rightarrow> c)"

fun match_abbr :: "string \<Rightarrow> string \<Rightarrow> bool" where
  "match_abbr [] t = (case t of [] \<Rightarrow> False | c # _ \<Rightarrow> c = CHR ''.'')"
| "match_abbr (p # ps) [] = False"
| "match_abbr (p # ps) (c # cs) =
     (if (if p = CHR ''.'' then \<not> is_line_terminator c else c = p \<or> c = ascii_upper p)
      then match_abbr ps cs else False)"

text \<open>\<^verbatim>\<open>\b\<close> between the character before the position (if any) and the one at it.\<close>

definition word_boundary :: "char option \<Rightarrow> char option \<Rightarrow> bool" where
  "word_boundary a b \<longleftrightarrow>
     (case a of None \<Rightarrow> False | Some c \<Rightarrow> is_word c) \<noteq>
     (case b of None \<Rightarrow> False | Some c \<Rightarrow> is_word c)"

text \<open>
  \<^verbatim>\<open>processedText.replace(regex, `${abbr}<<DOT>>`)\<close>; \<open>prev\<close> is the character before the
  position scanned. The replacement writes the abbreviation as spelled in the list, in
  lower case, whatever the text had.
\<close>

function replace_abbr :: "string \<Rightarrow> char option \<Rightarrow> string \<Rightarrow> string" where
  "replace_abbr abbr prev [] = []"
| "replace_abbr abbr prev (c # cs) =
     (if (if word_boundary prev (Some c) then match_abbr abbr (c # cs) else False)
      then abbr @ ''<<DOT>>'' @ replace_abbr abbr (Some (CHR ''.'')) (drop (length abbr) cs)
      else c # replace_abbr abbr (Some c) cs)"
  by pat_completeness auto
termination
  by (relation "measure (\<lambda>(abbr, prev, t). length t)") auto

text \<open>
  The separator \<^verbatim>\<open>/(?<=[.!?])\s+(?=[A-Z])|(?<=[.!?])\s*\n+/g\<close>, matched at the front of
  \<open>t\<close> with \<open>prev\<close> the character before; the result is the length of the match.
  First alternative: \<^verbatim>\<open>\s+\<close> must take the whole run of white space, since the
  lookahead wants a capital letter next. Second alternative: \<^verbatim>\<open>\s*\<close> is greedy and gives
  characters back one at a time until \<^verbatim>\<open>\n+\<close> matches after it.
\<close>

definition is_sentence_end :: "char \<Rightarrow> bool" where
  "is_sentence_end c \<longleftrightarrow> c = CHR ''.'' \<or> c = CHR ''!'' \<or> c = CHR ''?''"

definition match_alt1 :: "string \<Rightarrow> nat option" where
  "match_alt1 t =
     (let n = length (takeWhile is_space t)
      in if 0 < n \<and> (case drop n t of [] \<Rightarrow> False | c # _ \<Rightarrow> is_upper c) then Some n else None)"

definition newlines_at :: "string \<Rightarrow> nat \<Rightarrow> nat option" where
  "newlines_at t j =
     (let k = length (takeWhile (\<lambda>c. c = CHR 0x0A) (drop j t))
      in if 0 < k then Some (j + k) else None)"

fun alt2_backtrack :: "string \<Rightarrow> nat \<Rightarrow> nat option" where
  "alt2_backtrack t 0 = newlines_at t 0"
| "alt2_backtrack t (Suc j) =
     (case newlines_at t (Suc j) of Some e \<Rightarrow> Some e | None \<Rightarrow> alt2_backtrack t j)"

definition match_alt2 :: "string \<Rightarrow> nat option" where
  "match_alt2 t = alt2_backtrack t (length (takeWhile is_space t))"

definition match_sentence_sep :: "char option \<Rightarrow> string \<Rightarrow> nat option" where
  "match_sentence_sep prev t =
     (case prev of
        None \<Rightarrow> None
      | Some p \<Rightarrow>
          if is_sentence_end p then
            (case match_alt1 t of Some e \<Rightarrow> Some e | None \<Rightarrow> match_alt2 t)
          else None)"

text \<open>
  \<^verbatim>\<open>processedText.split(sentenceRegex)\<close>: the pieces of \<open>t\<close> between the separators. The
  first piece starts at the front of \<open>t\<close>; a character at which no separator matches
  joins the piece being read, a separator closes it. (An empty match would not close a
  piece; this separator has none.)
\<close>

fun cons_first :: "'a \<Rightarrow> 'a list list \<Rightarrow> 'a list list" where
  "cons_first c [] = [[c]]"
| "cons_first c (p # ps) = (c # p) # ps"

function split_sentences :: "char option \<Rightarrow> string \<Rightarrow> string list" where
  "split_sentences prev [] = [[]]"
| "split_sentences prev (c # cs) =
     (case match_sentence_sep prev (c # cs) of
        None \<Rightarrow> cons_first c (split_sentences (Some c) cs)
      | Some e \<Rightarrow>
          if e = 0 then cons_first c (split_sentences (Some c) cs)
          else [] # split_sentences (Some (last (take e (c # cs)))) (drop e (c # cs)))"
  by pat_completeness auto
termination
  by (relation "measure (\<lambda>(prev, t). length t)") auto

definition splitIntoSentences :: "string \<Rightarrow> string list" where
  "splitIntoSentences text =
     (let processedText = foldl (\<lambda>t abbr. replace_abbr abbr None t) text abbreviations;
          processedText = replace_all ''=== PDF PAGE'' ''<<PAGE_MARKER>>'' processedText;
          sentences = split_sentences None processedText
      in map (\<lambda>s. replace_all ''<<PAGE_MARKER>>'' ''=== PDF PAGE'' (replace_all ''<<DOT>>'' ''.'' s))
           sentences)"

definition targetChunkSize :: nat where
  "targetChunkSize = CHUNK_SIZE_TOKENS * CHARS_PER_TOKEN"

definition overlapSize :: nat where
  "overlapSize = CHUNK_OVERLAP_TOKENS * CHARS_PER_TOKEN"

text \<open>
  The state of the loop of \<^verbatim>\<open>splitIntoSmartChunks\<close> is \<^verbatim>\<open>chunks\<close>, \<^verbatim>\<open>currentChunk\<close> and
  \<^verbatim>\<open>overlapBuffer\<close>; \<open>chunk_step\<close> is one iteration.
\<close>

type_synonym chunker_state = "string list \<times> string \<times> string"

definition chunk_step :: "chunker_state \<Rightarrow> string \<Rightarrow> chunker_state" where
  "chunk_step st sentence =
     (case st of (chunks, currentChunk, overlapBuffer) \<Rightarrow>
        let trimmedSentence = trim sentence in
        if trimmedSentence = [] then st
        else
          let (chunks', currentChunk') =
                (if length currentChunk + length trimmedSentence > targetChunkSize \<and>
                    length currentChunk > 0
                 then (chunks @ [trim currentChunk], overlapBuffer @ '' '' @ trimmedSentence)
                 else (chunks, if currentChunk \<noteq> [] then currentChunk @ '' '' @ trimmedSentence
                               else trimmedSentence));
              combinedForOverlap = overlapBuffer @ '' '' @ trimmedSentence;
              overlapBuffer' = (if length combinedForOverlap > overlapSize
                                then trim (slice_last overlapSize combinedForOverlap)
                                else trim combinedForOverlap)
          in (chunks', currentChunk', overlapBuffer'))"

text \<open>The chunks after the loop and the final push, before the minimum-length filter.\<close>

definition closed_chunks :: "string list \<Rightarrow> string list" where
  "closed_chunks sentences =
     (case foldl chunk_step ([], [], []) sentences of (chunks, currentChunk, overlapBuffer) \<Rightarrow>
        if trim currentChunk \<noteq> [] then chunks @ [trim currentChunk] else chunks)"

definition splitIntoSmartChunks :: "string \<Rightarrow> string list" where
  "splitIntoSmartChunks text =
     filter (\<lambda>chunk. length chunk > 50) (closed_chunks (splitIntoSentences text))"

section \<open>Page markers\<close>

text \<open>
  The marker patterns \<^verbatim>\<open>/=== PAGE \d+ of (\d+) ===/\<close> and
  \<^verbatim>\<open>/=== PDF PAGE \d+ of (\d+) ===/\<close>, matched at the front of \<open>t\<close>; \<open>pfx\<close> is the text up
  to and including the space before the page number. Each \<^verbatim>\<open>\d+\<close> takes the whole run of
  digits, since a space must follow it. The result is the length of the match and the
  captured total.
\<close>

definition match_page_marker :: "string \<Rightarrow> string \<Rightarrow> (nat \<times> string) option" where
  "match_page_marker pfx t =
     (if prefix pfx t then
        (let t1 = drop (length pfx) t; d1 = takeWhile is_digit t1; t2 = drop (length d1) t1
         in if d1 \<noteq> [] \<and> prefix '' of '' t2 then
              (let t3 = drop 4 t2; d2 = takeWhile is_digit t3; t4 = drop (length d2) t3
               in if d2 \<noteq> [] \<and> prefix '' ==='' t4
                  then Some (length pfx + length d1 + 4 + length d2 + 4, d2)
                  else None)
            else None)
      else None)"

text \<open>\<^verbatim>\<open>text.match(/.../g)\<close>: the matched substrings, left to right; \<open>[]\<close> stands for null.\<close>

function match_all_markers :: "string \<Rightarrow> string \<Rightarrow> string list" where
  "match_all_markers pfx [] = []"
| "match_all_markers pfx (c # cs) =
     (case match_page_marker pfx (c # cs) of
        Some (n, d) \<Rightarrow> take n (c # cs) # match_all_markers pfx (drop (n - 1) cs)
      | None \<Rightarrow> match_all_markers pfx cs)"
  by pat_completeness auto
termination
  by (relation "measure (\<lambda>(pfx, t). length t)") auto

text \<open>\<^verbatim>\<open>text.match(/=== PDF PAGE \d+ of (\d+) ===/)\<close>: group 1 of the first match.\<close>

fun first_marker_total :: "string \<Rightarrow> string \<Rightarrow> string option" where
  "first_marker_total pfx [] = None"
| "first_marker_total pfx (c # cs) =
     (case match_page_marker pfx (c # cs) of
        Some (n, d) \<Rightarrow> Some d
      | None \<Rightarrow> first_marker_total pfx cs)"

text \<open>\<^verbatim>\<open>m.match(/of (\d+)/)\<close>: group 1 of the first match.\<close>

fun match_of_total :: "string \<Rightarrow> string option" where
  "match_of_total [] = None"
| "match_of_total (c # cs) =
     (if prefix ''of '' (c # cs) \<and> takeWhile is_digit (drop 3 (c # cs)) \<noteq> []
      then Some (takeWhile is_digit (drop 3 (c # cs)))
      else match_of_total cs)"

text \<open>
  \<^verbatim>\<open>parseInt\<close> of a string of decimal digits. The result is a JavaScript number: the
  integer the digits denote when that is below \<open>2 ^ 53\<close>, and otherwise the nearest number
  with a significand of 53 bits, a tie going to the even significand. (From \<open>2 ^ 1024\<close> on
  JavaScript gives \<^verbatim>\<open>Infinity\<close>, which the model does not have.)
\<close>

definition digit_value :: "char \<Rightarrow> nat" where
  "digit_value c = length (takeWhile (\<lambda>d. d \<noteq> c) ''0123456789'')"

definition decimal_value :: "string \<Rightarrow> nat" where
  "decimal_value ds = foldl (\<lambda>n c. 10 * n + digit_value c) 0 ds"

fun bit_length :: "nat \<Rightarrow> nat" where
  "bit_length n = (if n = 0 then 0 else Suc (bit_length (n div 2)))"

declare bit_length.simps [simp del]

definition nearest_double :: "nat \<Rightarrow> nat" where
  "nearest_double n =
     (if n < 2 ^ 53 then n
      else (let e = bit_length n - 53; q = n div 2 ^ e; r = n mod 2 ^ e
            in if 2 ^ e < 2 * r \<or> (2 * r = 2 ^ e \<and> odd q) then (q + 1) * 2 ^ e else q * 2 ^ e))"

definition parseInt :: "string \<Rightarrow> nat" where
  "parseInt ds = nearest_double (decimal_value ds)"

section \<open>Extraction and job lifecycle (process-document)\<close>

definition PAGES_PER_BATCH :: nat where "PAGES_PER_BATCH = 5"
definition ESTIMATED_CHARS_PER_PAGE :: nat where "ESTIMATED_CHARS_PER_PAGE = 3000"

text \<open>\<^verbatim>\<open>Math.ceil(a / b)\<close> on non-negative integers.\<close>

definition ceil_div :: "nat \<Rightarrow> nat \<Rightarrow> nat" where
  "ceil_div a b = (a + b - 1) div b"

text \<open>
  The three AI calls of the pipeline. What the gateway answers is not decided by the
  program: \<open>gateway env r k\<close> is the outcome of attempt \<open>k\<close> of request \<open>r\<close>. In the same way
  \<open>download\<close> is the storage download of a file path (an error message, or the content of the
  file as text), \<open>clock b\<close> the time read when the heartbeat of batch \<open>b\<close> is written, and
  \<open>insert_fails k\<close> says whether the \<open>k\<close>-th insert of chunk rows returns an error.
\<close>

datatype ai_request = PdfSingleCall | PdfPageRange nat nat nat | DocxCall

record env =
  download :: "string \<Rightarrow> string + string"
  gateway :: "ai_request \<Rightarrow> nat \<Rightarrow> attempt"
  clock :: "nat \<Rightarrow> int"
  insert_fails :: "nat \<Rightarrow> bool"

text \<open>
  Rows of \<^verbatim>\<open>source_chunks\<close> and \<^verbatim>\<open>ai_usage_logs\<close>. The generated primary keys are never
  inspected and are left out, and so are the token and cost estimates of a usage row,
  which the code computes in floating point; \<open>ai_calls\<close> is the counter \<^verbatim>\<open>usage.aiCalls\<close>.
\<close>

record chunk_row =
  source_id :: string
  chunk_index :: nat
  content :: string

record usage_log =
  user_id :: string
  log_source_id :: string
  log_file_type :: string
  ai_calls :: nat

record db =
  sources :: "source list"
  source_chunks :: "chunk_row list"
  ai_usage_logs :: "usage_log list"

text \<open>
  \<^verbatim>\<open>extractPdfSingleCall\<close>: the text, the page count and the increase of \<^verbatim>\<open>usage.aiCalls\<close>,
  or the message of the error thrown.
\<close>

definition extractPdfSingleCall :: "env \<Rightarrow> string + (string \<times> nat \<times> nat)" where
  "extractPdfSingleCall e =
     (case ai_call (gateway e PdfSingleCall) of
        Inl err \<Rightarrow> Inl err
      | Inr text \<Rightarrow>
          (let pageMatches = match_all_markers ''=== PDF PAGE '' text;
               pageCount =
                 (if pageMatches \<noteq> []
                  then fold max (map (\<lambda>m. parseInt (case match_of_total m of Some d \<Rightarrow> d | None \<Rightarrow> ''1''))
                                  pageMatches) 0
                  else max 1 (ceil_div (length text) ESTIMATED_CHARS_PER_PAGE))
           in Inr (text, pageCount, 1)))"

text \<open>\<^verbatim>\<open>extractPdfPageRange\<close>: the text of the range, or the message of the error thrown.\<close>

definition extractPdfPageRange :: "env \<Rightarrow> nat \<Rightarrow> nat \<Rightarrow> nat \<Rightarrow> string + string" where
  "extractPdfPageRange e startPage endPage totalPages =
     ai_call (gateway e (PdfPageRange startPage endPage totalPages))"

text \<open>
  The loop of \<^verbatim>\<open>extractPdfInBatches\<close> from batch number \<open>batch\<close> on. The state is
  \<^verbatim>\<open>allText\<close>, \<^verbatim>\<open>actualPageCount\<close>, the rows of \<^verbatim>\<open>sources\<close> and \<^verbatim>\<open>usage.aiCalls\<close>.
  \<^verbatim>\<open>Math.round((batch / totalBatches) * 80)\<close> is written as the integer rounding to nearest,
  halves upwards.
\<close>

definition batch_startPage :: "nat \<Rightarrow> nat" where
  "batch_startPage batch = batch * PAGES_PER_BATCH + 1"

definition batch_endPage :: "nat \<Rightarrow> nat \<Rightarrow> nat" where
  "batch_endPage estimatedPages batch = min ((batch + 1) * PAGES_PER_BATCH) estimatedPages"

definition batch_error_marker :: "nat \<Rightarrow> nat \<Rightarrow> string" where
  "batch_error_marker startPage endPage =
     ''[Error extracting pages '' @ show_nat startPage @ ''-'' @ show_nat endPage @ '']''"

definition heartbeat :: "env \<Rightarrow> nat \<Rightarrow> nat \<Rightarrow> nat \<Rightarrow> source \<Rightarrow> source" where
  "heartbeat e estimatedPages totalBatches batch r =
     r\<lparr>processing_progress := Some ((2 * (batch * 80) + totalBatches) div (2 * totalBatches)),
       processing_info := Some (''Processing pages '' @ show_nat (batch_startPage batch) @ ''-'' @
                                show_nat (batch_endPage estimatedPages batch) @ '' of ~'' @
                                show_nat estimatedPages @ ''...''),
       updated_at := clock e batch\<rparr>"

function extractPdfInBatches_loop ::
  "env \<Rightarrow> string \<Rightarrow> nat \<Rightarrow> nat \<Rightarrow> nat \<Rightarrow> string list \<times> nat \<times> source list \<times> nat \<Rightarrow>
   string list \<times> nat \<times> source list \<times> nat"
where
  "extractPdfInBatches_loop e sourceId estimatedPages totalBatches batch st =
     (case st of (allText, actualPageCount, rows, aiCalls) \<Rightarrow>
        if batch < totalBatches then
          (let startPage = batch_startPage batch;
               endPage = batch_endPage estimatedPages batch;
               rows' = update_source sourceId (heartbeat e estimatedPages totalBatches batch) rows
           in case extractPdfPageRange e startPage endPage estimatedPages of
                Inr batchText \<Rightarrow>
                  extractPdfInBatches_loop e sourceId estimatedPages totalBatches (batch + 1)
                    (allText @ [batchText],
                     (if batch = 0 then
                        (case first_marker_total ''=== PDF PAGE '' batchText of
                           Some d \<Rightarrow> parseInt d | None \<Rightarrow> actualPageCount)
                      else actualPageCount),
                     rows', aiCalls + 1)
              | Inl err \<Rightarrow>
                  extractPdfInBatches_loop e sourceId estimatedPages totalBatches (batch + 1)
                    (allText @ [batch_error_marker startPage endPage], actualPageCount, rows', aiCalls))
        else st)"
  by pat_completeness auto
termination
  by (relation "measure (\<lambda>(e, sourceId, estimatedPages, totalBatches, batch, st). totalBatches - batch)")
     auto

declare extractPdfInBatches_loop.simps [simp del]

definition extractPdfInBatches ::
  "env \<Rightarrow> string \<Rightarrow> nat \<Rightarrow> source list \<Rightarrow> (string \<times> nat \<times> nat) \<times> source list" where
  "extractPdfInBatches e sourceId estimatedPages rows =
     (let totalBatches = ceil_div estimatedPages PAGES_PER_BATCH
      in case extractPdfInBatches_loop e sourceId estimatedPages totalBatches 0
                ([], estimatedPages, rows, 0) of
           (allText, actualPageCount, rows', aiCalls) \<Rightarrow>
             ((join ''\<newline>\<newline>'' allText, actualPageCount, aiCalls), rows'))"

definition extractPdfContent ::
  "env \<Rightarrow> string \<Rightarrow> nat \<Rightarrow> source list \<Rightarrow> (string + (string \<times> nat \<times> nat)) \<times> source list" where
  "extractPdfContent e sourceId fileSize rows =
     (let estimatedPages = ceil_div fileSize 50000
      in if estimatedPages \<le> 15 then (extractPdfSingleCall e, rows)
         else (case extractPdfInBatches e sourceId estimatedPages rows of
                 (res, rows') \<Rightarrow> (Inr res, rows')))"

definition extractDocxContent :: "env \<Rightarrow> string + (string \<times> nat \<times> nat)" where
  "extractDocxContent e =
     (case ai_call (gateway e DocxCall) of
        Inl err \<Rightarrow> Inl err
      | Inr text \<Rightarrow> Inr (text, max 1 (ceil_div (length text) ESTIMATED_CHARS_PER_PAGE), 1))"

text \<open>
  \<^verbatim>\<open>fileSizeMB.toFixed(1)\<close> for \<^verbatim>\<open>fileSizeMB = file_size / (1024 * 1024)\<close>. The division by a
  power of two is exact in binary floating point, and \<^verbatim>\<open>toFixed\<close> rounds the exact value to
  the nearest tenth, halves upwards, so the digits are those of an integer rounding.
\<close>

definition fileSizeMB_toFixed1 :: "nat \<Rightarrow> string" where
  "fileSizeMB_toFixed1 fileSize =
     (let tenths = (fileSize * 10 * 2 + 1024 * 1024) div (2 * (1024 * 1024))
      in show_nat (tenths div 10) @ ''.'' @ show_nat (tenths mod 10))"

definition pdf_too_large_message :: "nat \<Rightarrow> string" where
  "pdf_too_large_message fileSize =
     ''PDF too large for server-side processing ('' @ fileSizeMB_toFixed1 fileSize @ ''MB). '' @
     ''Please try re-uploading - client-side extraction should handle this automatically. '' @
     ''If the issue persists, try a smaller file or contact support.''"

text \<open>
  The page count of a pre-extracted text: \<^verbatim>\<open>source.page_count || 1\<close>, replaced by the total
  of the last \<^verbatim>\<open>=== PAGE n of total ===\<close> marker when the text has one.
\<close>

definition preExtracted_pageCount :: "source \<Rightarrow> string \<Rightarrow> nat" where
  "preExtracted_pageCount src preExtractedText =
     (let pageCount = (case page_count src of None \<Rightarrow> 1 | Some n \<Rightarrow> if n = 0 then 1 else n);
          pageMatches = match_all_markers ''=== PAGE '' preExtractedText
      in if pageMatches \<noteq> [] then
           (case match_of_total (last pageMatches) of
              Some d \<Rightarrow> parseInt d
            | None \<Rightarrow> pageCount)
         else pageCount)"

text \<open>
  The first half of the \<^verbatim>\<open>try\<close> block of \<^verbatim>\<open>processDocumentInBackground\<close>, up to the point
  where \<^verbatim>\<open>textContent\<close> and \<^verbatim>\<open>pageCount\<close> are known: the text, the page count and
  \<^verbatim>\<open>usage.aiCalls\<close>, or the message of the error thrown, and the rows of \<^verbatim>\<open>sources\<close> as the
  progress updates left them.
\<close>

definition extract_text ::
  "env \<Rightarrow> source \<Rightarrow> string option \<Rightarrow> source list \<Rightarrow> (string + (string \<times> nat \<times> nat)) \<times> source list" where
  "extract_text e src preExtractedText rows =
     (let pageCount = (case page_count src of None \<Rightarrow> 1 | Some n \<Rightarrow> if n = 0 then 1 else n)
      in if (case preExtractedText of None \<Rightarrow> False | Some t \<Rightarrow> length t > 0) then
           (Inr (the preExtractedText, preExtracted_pageCount src (the preExtractedText), 0),
            update_source (id_col src)
              (\<lambda>r. r\<lparr>processing_progress := Some 50,
                      processing_info := Some ''Text extracted, creating chunks...''\<rparr>) rows)
         else
           (case download e (file_path src) of
              Inl msg \<Rightarrow> (Inl (''Failed to download file: '' @ msg), rows)
            | Inr fileData \<Rightarrow>
                if file_type src = ''txt'' then
                  (Inr (fileData,
                        (let n = ceil_div (length fileData) ESTIMATED_CHARS_PER_PAGE
                         in if n = 0 then 1 else n), 0), rows)
                else if file_type src = ''pdf'' then
                  (if file_size src > 2 * (1024 * 1024)
                   then (Inl (pdf_too_large_message (file_size src)), rows)
                   else extractPdfContent e (id_col src) (file_size src) rows)
                else if file_type src = ''docx'' \<or> file_type src = ''doc'' then
                  (extractDocxContent e, rows)
                else (Inr ([], pageCount, 0), rows)))"

text \<open>
  \<^verbatim>\<open>for (let i = 0; i < chunkInserts.length; i += 50)\<close>: insert the rows fifty at a time; an
  insert that returns an error is logged and the loop goes on.
\<close>

function insert_chunks :: "(nat \<Rightarrow> bool) \<Rightarrow> nat \<Rightarrow> chunk_row list \<Rightarrow> chunk_row list \<Rightarrow> chunk_row list" where
  "insert_chunks fails k chunkInserts table =
     (if chunkInserts = [] then table
      else insert_chunks fails (k + 1) (drop 50 chunkInserts)
             (if fails k then table else table @ take 50 chunkInserts))"
  by pat_completeness auto
termination
  by (relation "measure (\<lambda>(fails, k, chunkInserts, table). length chunkInserts)") auto

declare insert_chunks.simps [simp del]

text \<open>
  \<^verbatim>\<open>processDocumentInBackground\<close>. The upper-casing in the preview placeholder is written
  for the letters a to z (file types are file extensions).
\<close>

definition processDocumentInBackground :: "env \<Rightarrow> source \<Rightarrow> string option \<Rightarrow> db \<Rightarrow> db" where
  "processDocumentInBackground e src preExtractedText d =
     (let sourceId = id_col src
      in case extract_text e src preExtractedText (sources d) of
           (Inl errorMessage, rows) \<Rightarrow>
             d\<lparr>sources := update_source sourceId
                  (\<lambda>r. r\<lparr>status := Error, error_message := Some errorMessage\<rparr>) rows\<rparr>
         | (Inr (textContent, pageCount, aiCalls), rows) \<Rightarrow>
             (let contentPreview =
                    (if trim (take 500 textContent) \<noteq> [] then trim (take 500 textContent)
                     else ''['' @ map ascii_upper (file_type src) @ '' document]'');
                  chunks = (if textContent \<noteq> [] then splitIntoSmartChunks textContent else []);
                  table = filter (\<lambda>c. source_id c \<noteq> sourceId) (source_chunks d);
                  chunkInserts = map (\<lambda>(index, c). \<lparr>source_id = sourceId, chunk_index = index, content = c\<rparr>)
                                   (zip [0..<length chunks] chunks);
                  table' = insert_chunks (insert_fails e) 0 chunkInserts table;
                  rows' = update_source sourceId
                            (\<lambda>r. r\<lparr>status := Ready, content_preview := Some contentPreview,
                                    page_count := Some pageCount, error_message := None\<rparr>) rows
              in \<lparr>sources = rows', source_chunks = table',
                  ai_usage_logs =
                    (if aiCalls > 0
                     then ai_usage_logs d @
                            [\<lparr>user_id = uploaded_by src, log_source_id = sourceId,
                              log_file_type = file_type src, ai_calls = aiCalls\<rparr>]
                     else ai_usage_logs d)\<rparr>))"

text \<open>
  The request handler. The body is JSON with \<^verbatim>\<open>sourceId\<close> and \<^verbatim>\<open>preExtractedText\<close>, or
  does not parse (then \<^verbatim>\<open>req.json()\<close> throws and the outer \<^verbatim>\<open>catch\<close> answers 500).
  The handler returns the response, the database as it leaves it and, when it calls
  \<^verbatim>\<open>EdgeRuntime.waitUntil\<close>, the arguments of the background job it starts.
\<close>

datatype request_body = InvalidJson string | Body "string option" "string option"

record request =
  req_method :: string
  req_body :: request_body

datatype response_payload = NoBody | ErrorBody string | Started string

type_synonym http_response = "nat \<times> response_payload"

definition handler ::
  "string option \<Rightarrow> int \<Rightarrow> request \<Rightarrow> db \<Rightarrow> http_response \<times> db \<times> (source \<times> string option) option" where
  "handler lovableApiKey now req d =
     (if req_method req = ''OPTIONS'' then ((200, NoBody), d, None)
      else case req_body req of
        InvalidJson msg \<Rightarrow> ((500, ErrorBody msg), d, None)
      | Body sourceId preExtractedText \<Rightarrow>
          if sourceId = None \<or> sourceId = Some [] then ((400, ErrorBody ''sourceId is required''), d, None)
          else if lovableApiKey = None \<or> lovableApiKey = Some []
            then ((500, ErrorBody ''AI processing not configured''), d, None)
          else
            (case filter (\<lambda>r. id_col r = the sourceId) (sources d) of
               [src] \<Rightarrow>
                 ((200, Started (the sourceId)),
                  d\<lparr>sources := update_source (the sourceId)
                       (\<lambda>r. r\<lparr>status := Processing, error_message := None,
                               processing_started_at := Some now, processing_progress := Some 0,
                               processing_info := Some ''Starting processing...''\<rparr>) (sources d)\<rparr>,
                  Some (src, preExtractedText))
             | _ \<Rightarrow> ((404, ErrorBody ''Source not found''), d, None)))"

text \<open>A request served and the background job, if one was started, run to its end.\<close>

definition serve_and_run :: "env \<Rightarrow> string option \<Rightarrow> int \<Rightarrow> request \<Rightarrow> db \<Rightarrow> http_response \<times> db" where
  "serve_and_run e lovableApiKey now req d =
     (case handler lovableApiKey now req d of
        (resp, d', None) \<Rightarrow> (resp, d')
      | (resp, d', Some (src, preExtractedText)) \<Rightarrow>
          (resp, processDocumentInBackground e src preExtractedText d'))"

section \<open>Retrieval scorer (chat)\<close>

definition MAX_CHUNKS :: nat where "MAX_CHUNKS = 10"
definition MAX_CONTEXT_CHARS :: nat where "MAX_CONTEXT_CHARS = 8000"

text \<open>
  \<^verbatim>\<open>toLowerCase()\<close> on the code units modelled: A to Z, and the Latin-1 capitals U+00C0 to
  U+00DE without the multiplication sign U+00D7, move to their lower-case forms, which are
  32 code units further on: bit 5 of the code unit is set.
\<close>

definition latin1_capital :: "char \<Rightarrow> bool" where
  "latin1_capital c \<longleftrightarrow> c \<in> set
     [CHR 0xC0, CHR 0xC1, CHR 0xC2, CHR 0xC3, CHR 0xC4, CHR 0xC5, CHR 0xC6, CHR 0xC7,
      CHR 0xC8, CHR 0xC9, CHR 0xCA, CHR 0xCB, CHR 0xCC, CHR 0xCD, CHR 0xCE, CHR 0xCF,
      CHR 0xD0, CHR 0xD1, CHR 0xD2, CHR 0xD3, CHR 0xD4, CHR 0xD5, CHR 0xD6,
      CHR 0xD8, CHR 0xD9, CHR 0xDA, CHR 0xDB, CHR 0xDC, CHR 0xDD, CHR 0xDE]"

definition lower_char :: "char \<Rightarrow> char" where
  "lower_char c =
     (if is_upper c \<or> latin1_capital c
      then (case c of Char b0 b1 b2 b3 b4 b5 b6 b7 \<Rightarrow> Char b0 b1 b2 b3 b4 True b6 b7)
      else c)"

definition toLowerCase :: "string \<Rightarrow> string" where
  "toLowerCase s = map lower_char s"

text \<open>
  \<^verbatim>\<open>s.split(/\s+/)\<close>: the pieces between the maximal runs of white space; a string that
  starts or ends with white space has an empty first or last piece.
\<close>

function split_ws :: "string \<Rightarrow> string list" where
  "split_ws [] = [[]]"
| "split_ws (c # cs) =
     (if is_space c then [] # split_ws (dropWhile is_space cs)
      else cons_first c (split_ws cs))"
  by pat_completeness auto
termination
  by (relation "measure length") (auto simp: length_dropWhile_le less_Suc_eq_le)

text \<open>
  \<^verbatim>\<open>query.toLowerCase().replace(/[^\w\s]/g, "").split(/\s+/).filter(w => w.length > 2)\<close>.
\<close>

definition query_keywords :: "string \<Rightarrow> string list" where
  "query_keywords query =
     filter (\<lambda>w. length w > 2)
       (split_ws (filter (\<lambda>c. is_word c \<or> is_space c) (toLowerCase query)))"

text \<open>\<^verbatim>\<open>s.includes(kw)\<close>: \<open>kw\<close> occurs in \<open>s\<close> as a run of consecutive characters.\<close>

fun string_includes :: "string \<Rightarrow> string \<Rightarrow> bool" where
  "string_includes [] kw = (kw = [])"
| "string_includes (c # cs) kw = (prefix kw (c # cs) \<or> string_includes cs kw)"

text \<open>An element of \<^verbatim>\<open>results\<close> (the interface \<^verbatim>\<open>ChunkResult\<close>, without the row id).\<close>

record chunk_result =
  result_content :: string
  result_chunk_index :: nat
  result_source_id :: string
  source_name :: string
  score :: nat

text \<open>
  The rows the client sees. \<^verbatim>\<open>candidate_ids\<close> is the list the loop runs over before the
  \<^verbatim>\<open>slice(0, 5)\<close>: the ids given, or the ids of the first ten ready documents. The query
  for the chunks of one document has no \<^verbatim>\<open>order\<close>; the model returns them in table order.
  The inner join with \<^verbatim>\<open>sources\<close> drops a chunk whose document is not visible.
\<close>

definition candidate_ids :: "db \<Rightarrow> string list \<Rightarrow> string list" where
  "candidate_ids d sourceIds =
     (if sourceIds = [] then map id_col (take 10 (filter (\<lambda>s. status s = Ready) (sources d)))
      else sourceIds)"

definition select_chunks :: "db \<Rightarrow> string \<Rightarrow> (chunk_row \<times> string) list" where
  "select_chunks d sourceId =
     take MAX_CHUNKS
       (concat (map (\<lambda>c. case find (\<lambda>s. id_col s = source_id c) (sources d) of
                             None \<Rightarrow> []
                           | Some s \<Rightarrow> [(c, name_col s)])
                    (filter (\<lambda>c. source_id c = sourceId) (source_chunks d))))"

definition score_chunk :: "string list \<Rightarrow> chunk_row \<times> string \<Rightarrow> chunk_result" where
  "score_chunk kws row =
     (case row of (chunk, name) \<Rightarrow>
        let contentLower = toLowerCase (content chunk)
        in \<lparr>result_content = content chunk, result_chunk_index = chunk_index chunk,
            result_source_id = source_id chunk, source_name = name,
            score = foldl (\<lambda>acc kw. acc + (if string_includes contentLower kw then 1 else 0)) 0 kws\<rparr>)"

text \<open>The array \<^verbatim>\<open>results\<close> after the loop over the documents, before the sort.\<close>

definition collect_results :: "db \<Rightarrow> string list \<Rightarrow> string list \<Rightarrow> chunk_result list" where
  "collect_results d kws sourceIds =
     concat (map (\<lambda>sourceId. filter (\<lambda>r. score r > 0) (map (score_chunk kws) (select_chunks d sourceId)))
                 (take 5 sourceIds))"

text \<open>
  \<^verbatim>\<open>results.sort((a, b) => (b.score || 0) - (a.score || 0))\<close>: \<^verbatim>\<open>Array.prototype.sort\<close> is
  stable, and a stable sort by descending score has one result, the one of the insertion
  sort \<open>sort_key\<close> on the negated score.
\<close>

definition sort_results :: "chunk_result list \<Rightarrow> chunk_result list" where
  "sort_results results = sort_key (\<lambda>r. - int (score r)) results"

text \<open>The loop that fills \<^verbatim>\<open>limited\<close>; both exits are \<^verbatim>\<open>break\<close>s.\<close>

fun accept_chunks :: "nat \<Rightarrow> chunk_result list \<Rightarrow> chunk_result list \<Rightarrow> chunk_result list" where
  "accept_chunks totalChars limited [] = limited"
| "accept_chunks totalChars limited (chunk # rest) =
     (if totalChars + length (result_content chunk) > MAX_CONTEXT_CHARS then limited
      else if length (limited @ [chunk]) \<ge> MAX_CHUNKS then limited @ [chunk]
      else accept_chunks (totalChars + length (result_content chunk)) (limited @ [chunk]) rest)"

definition searchRelevantChunks :: "db \<Rightarrow> string \<Rightarrow> string list \<Rightarrow> chunk_result list" where
  "searchRelevantChunks d query sourceIds =
     (let sourceIds' = candidate_ids d sourceIds
      in if sourceIds' = [] then []
         else let kws = query_keywords query
              in if kws = [] then []
                 else accept_chunks 0 [] (sort_results (collect_results d kws sourceIds')))"

text \<open>
  The text that the loop of \<^verbatim>\<open>extractPdfInBatches\<close> pushes for batch \<open>b\<close>: what the
  extractor returned, or the error marker of the range when it threw.
\<close>

definition batch_text :: "env \<Rightarrow> nat \<Rightarrow> nat \<Rightarrow> string" where
  "batch_text e estimatedPages b =
     (case extractPdfPageRange e (batch_startPage b) (batch_endPage estimatedPages b) estimatedPages of
        Inr t \<Rightarrow> t
      | Inl err \<Rightarrow> batch_error_marker (batch_startPage b) (batch_endPage estimatedPages b))"


section \<open>Properties of the chunker\<close>

lemma length_trim_le: "length (trim s) \<le> length s"
proof -
  have "length (trim s) \<le> length (dropWhile is_space s)"
    unfolding trim_def by (metis length_dropWhile_le length_rev)
  also have "\<dots> \<le> length s" by (rule length_dropWhile_le)
  finally show ?thesis .
qed

lemma trim_id: "s \<noteq> [] \<Longrightarrow> \<not> is_space (hd s) \<Longrightarrow> \<not> is_space (last s) \<Longrightarrow> trim s = s"
proof -
  assume s: "s \<noteq> []" and h: "\<not> is_space (hd s)" and l: "\<not> is_space (last s)"
  from s h have 1: "dropWhile is_space s = s" by (cases s) auto
  from s l have "dropWhile is_space (rev s) = rev s" by (cases "rev s") (auto simp: last_rev hd_rev)
  with 1 show ?thesis by (simp add: trim_def)
qed

lemma match_abbr_dot: "match_abbr ps t \<Longrightarrow> CHR ''.'' \<in> set t"
  by (induction ps t rule: match_abbr.induct) (auto split: list.splits if_splits)

lemma replace_abbr_id: "CHR ''.'' \<notin> set t \<Longrightarrow> replace_abbr abbr prev t = t"
proof (induction t arbitrary: prev)
  case Nil
  then show ?case by simp
next
  case (Cons c cs)
  then have "\<not> match_abbr abbr (c # cs)" using match_abbr_dot by blast
  with Cons show ?case by simp
qed

lemma replace_all_id: "x \<in> set pat \<Longrightarrow> x \<notin> set t \<Longrightarrow> replace_all pat rep t = t"
proof (induction t)
  case Nil
  then show ?case by simp
next
  case (Cons c cs)
  then have "\<not> prefix pat (c # cs)" using set_mono_prefix by fastforce
  with Cons show ?case by simp
qed

lemma match_sep_nonspace: "\<not> is_space c \<Longrightarrow> match_sentence_sep prev (c # cs) = None"
  by (auto simp: match_sentence_sep_def match_alt1_def match_alt2_def newlines_at_def is_space_def
      split: option.splits)

lemma match_sep_prev: "(case prev of None \<Rightarrow> True | Some p \<Rightarrow> \<not> is_sentence_end p) \<Longrightarrow> match_sentence_sep prev t = None"
  by (auto simp: match_sentence_sep_def split: option.splits)

lemma split_plain:
  "(case prev of None \<Rightarrow> True | Some p \<Rightarrow> \<not> is_sentence_end p) \<Longrightarrow>
   \<forall>c\<in>set t. \<not> is_sentence_end c \<Longrightarrow> split_sentences prev t = [t]"
proof (induction t arbitrary: prev)
  case Nil
  then show ?case by simp
next
  case (Cons c cs)
  have "match_sentence_sep prev (c # cs) = None" using Cons.prems(1) by (rule match_sep_prev)
  moreover have "split_sentences (Some c) cs = [cs]" using Cons by simp
  ultimately show ?case by simp
qed

lemma split_nospace:
  "\<forall>c\<in>set u. \<not> is_space c \<Longrightarrow> u \<noteq> [] \<Longrightarrow>
   split_sentences prev (u @ t) = (case split_sentences (Some (last u)) t of p # ps \<Rightarrow> (u @ p) # ps | [] \<Rightarrow> [u])"
proof (induction u arbitrary: prev)
  case Nil
  then show ?case by simp
next
  case (Cons c cs)
  have m: "match_sentence_sep prev (c # cs @ t) = None" using Cons.prems(1) by (simp add: match_sep_nonspace)
  show ?case
  proof (cases "cs = []")
    case True
    with m show ?thesis by (cases "split_sentences (Some c) t") auto
  next
    case False
    with Cons have "split_sentences (Some c) (cs @ t) = (case split_sentences (Some (last cs)) t of p # ps \<Rightarrow> (cs @ p) # ps | [] \<Rightarrow> [cs])"
      by simp
    with m False show ?thesis by (cases "split_sentences (Some (last cs)) t") auto
  qed
qed

lemma split_nospace_all: "\<forall>c\<in>set u. \<not> is_space c \<Longrightarrow> split_sentences prev u = [u]"
  by (induction u arbitrary: prev) (simp_all add: match_sep_nonspace)

lemma splitIntoSentences_plain:
  assumes "CHR ''.'' \<notin> set t" "CHR ''!'' \<notin> set t" "CHR ''?'' \<notin> set t" "CHR ''D'' \<notin> set t" "CHR ''<'' \<notin> set t"
  shows "splitIntoSentences t = [t]"
proof -
  have 1: "foldl (\<lambda>t abbr. replace_abbr abbr None t) t abbrs = t" for abbrs
    by (induction abbrs) (simp_all add: replace_abbr_id assms)
  have 2: "replace_all ''=== PDF PAGE'' ''<<PAGE_MARKER>>'' t = t"
    by (rule replace_all_id[of "CHR ''D''"]) (simp_all add: assms)
  have 3: "split_sentences None t = [t]"
    by (rule split_plain) (use assms in \<open>auto simp: is_sentence_end_def\<close>)
  have 4: "replace_all ''<<DOT>>'' ''.'' t = t"
    by (rule replace_all_id[of "CHR ''<''"]) (simp_all add: assms)
  have 5: "replace_all ''<<PAGE_MARKER>>'' ''=== PDF PAGE'' t = t"
    by (rule replace_all_id[of "CHR ''<''"]) (simp_all add: assms)
  show ?thesis by (simp add: splitIntoSentences_def 1 2 3 4 5)
qed

lemma chunk_step_bound:
  assumes "\<forall>c\<in>set chunks. length c \<le> targetChunkSize + 1 \<or> (\<exists>s\<in>S. length c \<le> overlapSize + 1 + length (trim s))"
    and "length cur \<le> targetChunkSize + 1 \<or> (\<exists>s\<in>S. length cur \<le> overlapSize + 1 + length (trim s))"
    and "length ob \<le> overlapSize"
    and "chunk_step (chunks, cur, ob) x = (chunks', cur', ob')"
  shows "(\<forall>c\<in>set chunks'. length c \<le> targetChunkSize + 1 \<or> (\<exists>s\<in>insert x S. length c \<le> overlapSize + 1 + length (trim s))) \<and>
         (length cur' \<le> targetChunkSize + 1 \<or> (\<exists>s\<in>insert x S. length cur' \<le> overlapSize + 1 + length (trim s))) \<and>
         length ob' \<le> overlapSize"
proof (cases "trim x = []")
  case True
  with assms show ?thesis by (auto simp: chunk_step_def)
next
  case False
  let ?t = "trim x"
  have ob': "ob' = (if length (ob @ '' '' @ ?t) > overlapSize then trim (slice_last overlapSize (ob @ '' '' @ ?t)) else trim (ob @ '' '' @ ?t))"
    using assms(4) False by (auto simp: chunk_step_def Let_def split: if_splits)
  have 3: "length ob' \<le> overlapSize"
  proof (cases "length (ob @ '' '' @ ?t) > overlapSize")
    case True
    then have "ob' = trim (slice_last overlapSize (ob @ '' '' @ ?t))" using ob' by simp
    moreover have "length (slice_last overlapSize (ob @ '' '' @ ?t)) \<le> overlapSize"
      by (simp add: slice_last_def)
    ultimately show ?thesis using length_trim_le order_trans by metis
  next
    case F: False
    then have "ob' = trim (ob @ '' '' @ ?t)" using ob' by simp
    then show ?thesis using length_trim_le[of "ob @ '' '' @ ?t"] F by simp
  qed
  show ?thesis
  proof (cases "length cur + length ?t > targetChunkSize \<and> length cur > 0")
    case True
    then have c: "chunks' = chunks @ [trim cur]" "cur' = ob @ '' '' @ ?t"
      using assms(4) False by (auto simp: chunk_step_def Let_def split: if_splits)
    have "length (trim cur) \<le> length cur" by (rule length_trim_le)
    then have 1: "length (trim cur) \<le> targetChunkSize + 1 \<or> (\<exists>s\<in>S. length (trim cur) \<le> overlapSize + 1 + length (trim s))"
      using assms(2) by (meson order_trans)
    have 2: "length cur' \<le> overlapSize + 1 + length (trim x)" using c assms(3) by simp
    from 1 2 3 assms(1) c show ?thesis by auto
  next
    case F: False
    then have c: "chunks' = chunks" "cur' = (if cur \<noteq> [] then cur @ '' '' @ ?t else ?t)"
      using assms(4) False by (auto simp: chunk_step_def Let_def split: if_splits)
    have 2: "length cur' \<le> targetChunkSize + 1 \<or> length cur' \<le> overlapSize + 1 + length (trim x)"
      using c F by (cases "cur = []") auto
    from 2 3 assms(1) c show ?thesis by auto
  qed
qed

lemma foldl_chunk_step_bound:
  assumes "\<forall>c\<in>set chunks. length c \<le> targetChunkSize + 1 \<or> (\<exists>s\<in>S. length c \<le> overlapSize + 1 + length (trim s))"
    and "length cur \<le> targetChunkSize + 1 \<or> (\<exists>s\<in>S. length cur \<le> overlapSize + 1 + length (trim s))"
    and "length ob \<le> overlapSize"
    and "foldl chunk_step (chunks, cur, ob) xs = (chunks', cur', ob')"
  shows "(\<forall>c\<in>set chunks'. length c \<le> targetChunkSize + 1 \<or> (\<exists>s\<in>S \<union> set xs. length c \<le> overlapSize + 1 + length (trim s))) \<and>
         (length cur' \<le> targetChunkSize + 1 \<or> (\<exists>s\<in>S \<union> set xs. length cur' \<le> overlapSize + 1 + length (trim s)))"
  using assms
proof (induction xs arbitrary: chunks cur ob S)
  case Nil
  then show ?case by auto
next
  case (Cons x xs)
  obtain c1 u1 o1 where st: "chunk_step (chunks, cur, ob) x = (c1, u1, o1)"
    by (metis prod_cases3)
  from chunk_step_bound[OF Cons.prems(1,2,3) st]
  have a: "\<forall>c\<in>set c1. length c \<le> targetChunkSize + 1 \<or> (\<exists>s\<in>insert x S. length c \<le> overlapSize + 1 + length (trim s))"
    and b: "length u1 \<le> targetChunkSize + 1 \<or> (\<exists>s\<in>insert x S. length u1 \<le> overlapSize + 1 + length (trim s))"
    and c: "length o1 \<le> overlapSize" by blast+
  have f: "foldl chunk_step (c1, u1, o1) xs = (chunks', cur', ob')" using Cons.prems(4) st by simp
  from Cons.IH[OF a b c f] show ?case by simp
qed

lemma closed_chunks_bound:
  "c \<in> set (closed_chunks xs) \<Longrightarrow>
   length c \<le> targetChunkSize + 1 \<or> (\<exists>s\<in>set xs. length c \<le> overlapSize + 1 + length (trim s))"
proof -
  assume c: "c \<in> set (closed_chunks xs)"
  obtain chunks cur ob where f: "foldl chunk_step ([], [], []) xs = (chunks, cur, ob)"
    by (metis prod_cases3)
  have "(\<forall>c\<in>set chunks. length c \<le> targetChunkSize + 1 \<or> (\<exists>s\<in>{} \<union> set xs. length c \<le> overlapSize + 1 + length (trim s))) \<and>
         (length cur \<le> targetChunkSize + 1 \<or> (\<exists>s\<in>{} \<union> set xs. length cur \<le> overlapSize + 1 + length (trim s)))"
    by (rule foldl_chunk_step_bound[OF _ _ _ f]) simp_all
  then have 1: "\<forall>c\<in>set chunks. length c \<le> targetChunkSize + 1 \<or> (\<exists>s\<in>set xs. length c \<le> overlapSize + 1 + length (trim s))"
    and 2: "length cur \<le> targetChunkSize + 1 \<or> (\<exists>s\<in>set xs. length cur \<le> overlapSize + 1 + length (trim s))"
    by simp_all
  have "length (trim cur) \<le> length cur" by (rule length_trim_le)
  with 2 have 3: "length (trim cur) \<le> targetChunkSize + 1 \<or> (\<exists>s\<in>set xs. length (trim cur) \<le> overlapSize + 1 + length (trim s))"
    by (meson order_trans)
  from c f have "c \<in> set chunks \<or> c = trim cur" by (auto simp: closed_chunks_def split: if_splits)
  with 1 3 show ?thesis by blast
qed


lemma chunk_step_first:
  "trim s = s \<Longrightarrow> s \<noteq> [] \<Longrightarrow> \<exists>ob. chunk_step (cs, [], ob0) s = (cs, s, ob)"
  by (simp add: chunk_step_def Let_def)

lemma chunk_step_join:
  "trim s = s \<Longrightarrow> s \<noteq> [] \<Longrightarrow> cur \<noteq> [] \<Longrightarrow> length cur + length s \<le> targetChunkSize \<Longrightarrow>
   \<exists>ob'. chunk_step (cs, cur, ob) s = (cs, cur @ '' '' @ s, ob')"
  by (simp add: chunk_step_def Let_def)

lemma closed_chunks_single:
  assumes "trim s = s" "s \<noteq> []"
  shows "closed_chunks [s] = [s]"
proof -
  obtain ob where "chunk_step ([], [], []) s = ([], s, ob)" using chunk_step_first[OF assms] by blast
  then show ?thesis using assms by (simp add: closed_chunks_def)
qed

lemma closed_chunks_pair:
  assumes "trim s1 = s1" "s1 \<noteq> []" "trim s2 = s2" "s2 \<noteq> []" "length s1 + length s2 \<le> targetChunkSize"
    "trim (s1 @ '' '' @ s2) = s1 @ '' '' @ s2"
  shows "closed_chunks [s1, s2] = [s1 @ '' '' @ s2]"
proof -
  obtain ob where 1: "chunk_step ([], [], []) s1 = ([], s1, ob)" using chunk_step_first[OF assms(1,2)] by blast
  obtain ob' where 2: "chunk_step ([], s1, ob) s2 = ([], s1 @ '' '' @ s2, ob')"
    using chunk_step_join[OF assms(3,4,2,5)] by blast
  show ?thesis using 1 2 assms by (simp add: closed_chunks_def)
qed

lemma sentences_two:
  "splitIntoSentences ((replicate 999 CHR ''a'' @ ''!'') @ CHR '' '' # CHR ''A'' # replicate 998 CHR ''a'' @ ''!'') =
     [replicate 999 CHR ''a'' @ ''!'', CHR ''A'' # replicate 998 CHR ''a'' @ ''!'']"
proof -
  define u1 where "u1 = replicate 999 CHR ''a'' @ ''!''"
  define u2 where "u2 = CHR ''A'' # replicate 998 CHR ''a'' @ ''!''"
  define T where "T = u1 @ CHR '' '' # u2"
  have nodot: "CHR ''.'' \<notin> set T" by (simp add: T_def u1_def u2_def)
  have 1: "foldl (\<lambda>t abbr. replace_abbr abbr None t) T abbrs = T" for abbrs
    by (induction abbrs) (simp_all only: foldl.simps replace_abbr_id[OF nodot])
  have 2: "replace_all ''=== PDF PAGE'' ''<<PAGE_MARKER>>'' T = T"
    by (rule replace_all_id[of "CHR ''D''"]) (simp_all add: T_def u1_def u2_def)
  have m: "match_sentence_sep (Some CHR ''!'') (CHR '' '' # u2) = Some 1"
    by (simp add: match_sentence_sep_def is_sentence_end_def match_alt1_def is_space_def is_upper_def u2_def)
  have u1: "u1 \<noteq> []" "\<forall>c\<in>set u1. \<not> is_space c" "last u1 = CHR ''!''"
    by (simp_all add: u1_def is_space_def)
  have u2: "u2 \<noteq> []" "\<forall>c\<in>set u2. \<not> is_space c"
    by (simp_all add: u2_def is_space_def)
  have s2: "split_sentences (Some CHR '' '') u2 = [u2]"
    by (rule split_nospace_all[OF u2(2)])
  have s1: "split_sentences (Some CHR ''!'') (CHR '' '' # u2) = [[], u2]"
    by (simp add: m s2)
  have 3: "split_sentences None T = [u1, u2]"
    unfolding T_def by (simp only: split_nospace[OF u1(2,1)] u1(3) s1 list.case append_Nil2)
  have 4: "replace_all ''<<PAGE_MARKER>>'' ''=== PDF PAGE'' (replace_all ''<<DOT>>'' ''.'' u1) = u1"
    by (simp add: replace_all_id[of "CHR ''<''"] u1_def)
  have 5: "replace_all ''<<PAGE_MARKER>>'' ''=== PDF PAGE'' (replace_all ''<<DOT>>'' ''.'' u2) = u2"
    by (simp add: replace_all_id[of "CHR ''<''"] u2_def)
  have "splitIntoSentences T = [u1, u2]"
    unfolding splitIntoSentences_def Let_def 1 2 3 using 4 5 by simp
  then show ?thesis unfolding T_def u1_def u2_def .
qed

lemma page_text_sentences:
  "splitIntoSentences ''=== PAGE 1 of 1 ===\<newline>Hello world, this is a page of sample text'' =
   [''=== PAGE 1 of 1 ===\<newline>Hello world, this is a page of sample text'']"
  by (rule splitIntoSentences_plain) simp_all


section \<open>Properties of the extraction and of the job\<close>

lemma update_source_ids:
  "(\<And>r. id_col (f r) = id_col r) \<Longrightarrow> map id_col (update_source i f rows) = map id_col rows"
  by (induction rows) (simp_all add: update_source_def)

lemma update_source_all:
  "(\<And>r. id_col (f r) = id_col r) \<Longrightarrow> r \<in> set (update_source i f rows) \<Longrightarrow> id_col r = i \<Longrightarrow>
   \<exists>r0\<in>set rows. r = f r0"
  by (auto simp: update_source_def split: if_splits)

lemma batches_loop_text:
  "fst (extractPdfInBatches_loop e sid est tb b (allText, apc, rows, ai)) =
     allText @ map (batch_text e est) [b..<tb]"
proof (induction "tb - b" arbitrary: b allText apc rows ai)
  case 0
  then show ?case by (subst extractPdfInBatches_loop.simps) simp
next
  case (Suc n)
  then have lt: "b < tb" and n: "n = tb - (b + 1)" by simp_all
  have up: "[b..<tb] = b # [b + 1..<tb]" using lt by (simp add: upt_conv_Cons)
  show ?case
  proof (cases "extractPdfPageRange e (batch_startPage b) (batch_endPage est b) est")
    case (Inl err)
    then show ?thesis
      using lt Suc.hyps(1)[OF n] by (subst extractPdfInBatches_loop.simps) (simp add: up batch_text_def Let_def)
  next
    case (Inr t)
    then show ?thesis
      using lt Suc.hyps(1)[OF n] by (subst extractPdfInBatches_loop.simps) (simp add: up batch_text_def Let_def)
  qed
qed

lemma batches_loop_ids:
  "extractPdfInBatches_loop e sid est tb b (allText, apc, rows, ai) = (allText', apc', rows', ai') \<Longrightarrow>
   map id_col rows' = map id_col rows"
proof (induction "tb - b" arbitrary: b allText apc rows ai)
  case 0
  then show ?case by (subst (asm) extractPdfInBatches_loop.simps) simp
next
  case (Suc n)
  then have lt: "b < tb" and n: "n = tb - (b + 1)" by simp_all
  have h: "map id_col (update_source sid (heartbeat e est tb b) rows) = map id_col rows"
    by (rule update_source_ids) (simp add: heartbeat_def)
  show ?case
  proof (cases "extractPdfPageRange e (batch_startPage b) (batch_endPage est b) est")
    case (Inl err)
    with Suc.prems lt have "extractPdfInBatches_loop e sid est tb (b + 1)
       (allText @ [batch_error_marker (batch_startPage b) (batch_endPage est b)], apc,
        update_source sid (heartbeat e est tb b) rows, ai) = (allText', apc', rows', ai')"
      by (subst (asm) extractPdfInBatches_loop.simps) (simp add: Let_def)
    from Suc.hyps(1)[OF n this] h show ?thesis by simp
  next
    case (Inr t)
    with Suc.prems lt obtain apc2 where "extractPdfInBatches_loop e sid est tb (b + 1)
       (allText @ [t], apc2, update_source sid (heartbeat e est tb b) rows, ai + 1) = (allText', apc', rows', ai')"
      by (subst (asm) extractPdfInBatches_loop.simps) (simp add: Let_def)
    from Suc.hyps(1)[OF n this] h show ?thesis by simp
  qed
qed

lemma extractPdfInBatches_text:
  "\<exists>pc ai rows'. extractPdfInBatches e sid est rows =
      ((join ''\<newline>\<newline>'' (map (batch_text e est) [0..<ceil_div est PAGES_PER_BATCH]), pc, ai), rows') \<and>
      map id_col rows' = map id_col rows"
proof -
  obtain allText pc rows' ai where
    l: "extractPdfInBatches_loop e sid est (ceil_div est PAGES_PER_BATCH) 0 ([], est, rows, 0) = (allText, pc, rows', ai)"
    by (metis prod_cases4)
  have "fst (extractPdfInBatches_loop e sid est (ceil_div est PAGES_PER_BATCH) 0 ([], est, rows, 0)) =
        [] @ map (batch_text e est) [0..<ceil_div est PAGES_PER_BATCH]"
    by (rule batches_loop_text)
  with l have t: "allText = map (batch_text e est) [0..<ceil_div est PAGES_PER_BATCH]" by simp
  have "map id_col rows' = map id_col rows" using l by (rule batches_loop_ids)
  with l t show ?thesis by (simp add: extractPdfInBatches_def Let_def)
qed

lemma extract_text_ids:
  "extract_text e src pre rows = (res, rows') \<Longrightarrow> map id_col rows' = map id_col rows"
proof -
  assume a: "extract_text e src pre rows = (res, rows')"
  have u: "map id_col (update_source (id_col src)
              (\<lambda>r. r\<lparr>processing_progress := Some 50,
                      processing_info := Some ''Text extracted, creating chunks...''\<rparr>) rows) = map id_col rows"
    by (rule update_source_ids) simp
  have b: "map id_col (snd (extractPdfContent e (id_col src) (file_size src) rows)) = map id_col rows"
  proof -
    obtain pc ai r2 t where "extractPdfInBatches e (id_col src) (ceil_div (file_size src) 50000) rows = ((t, pc, ai), r2)"
      and "map id_col r2 = map id_col rows"
      using extractPdfInBatches_text by blast
    then show ?thesis by (simp add: extractPdfContent_def Let_def)
  qed
  from a u b show ?thesis
    by (auto simp: extract_text_def Let_def split: if_splits sum.splits option.splits)
qed

lemma job_error:
  "extract_text e src pre (sources d) = (Inl msg, rows) \<Longrightarrow>
   processDocumentInBackground e src pre d =
     d\<lparr>sources := update_source (id_col src) (\<lambda>r. r\<lparr>status := Error, error_message := Some msg\<rparr>) rows\<rparr>"
  by (simp add: processDocumentInBackground_def)

lemma job_ok:
  "extract_text e src pre (sources d) = (Inr (t, pc, ai), rows) \<Longrightarrow>
   sources (processDocumentInBackground e src pre d) =
     update_source (id_col src)
       (\<lambda>r. r\<lparr>status := Ready,
               content_preview := Some (if trim (take 500 t) \<noteq> [] then trim (take 500 t)
                                        else ''['' @ map ascii_upper (file_type src) @ '' document]''),
               page_count := Some pc, error_message := None\<rparr>) rows \<and>
   ai_usage_logs (processDocumentInBackground e src pre d) =
     (if ai > 0 then ai_usage_logs d @ [\<lparr>user_id = uploaded_by src, log_source_id = id_col src,
                              log_file_type = file_type src, ai_calls = ai\<rparr>] else ai_usage_logs d)"
  by (simp add: processDocumentInBackground_def Let_def)

lemma job_ok_ready:
  assumes "extract_text e src pre (sources d) = (Inr (t, pc, ai), rows)"
  shows "map id_col (sources (processDocumentInBackground e src pre d)) = map id_col (sources d) \<and>
         (\<forall>r\<in>set (sources (processDocumentInBackground e src pre d)).
            id_col r = id_col src \<longrightarrow> status r = Ready \<and> error_message r = None \<and> page_count r = Some pc)"
proof -
  have i: "map id_col rows = map id_col (sources d)" using assms by (rule extract_text_ids)
  have s: "sources (processDocumentInBackground e src pre d) =
     update_source (id_col src)
       (\<lambda>r. r\<lparr>status := Ready,
               content_preview := Some (if trim (take 500 t) \<noteq> [] then trim (take 500 t)
                                        else ''['' @ map ascii_upper (file_type src) @ '' document]''),
               page_count := Some pc, error_message := None\<rparr>) rows"
    using job_ok[OF assms] by blast
  have "map id_col (sources (processDocumentInBackground e src pre d)) = map id_col rows"
    unfolding s by (rule update_source_ids) simp
  with i show ?thesis unfolding s by (auto simp: update_source_def)
qed

lemma job_error_state:
  assumes "extract_text e src pre (sources d) = (Inl msg, rows)"
  shows "source_chunks (processDocumentInBackground e src pre d) = source_chunks d \<and>
         ai_usage_logs (processDocumentInBackground e src pre d) = ai_usage_logs d \<and>
         map id_col (sources (processDocumentInBackground e src pre d)) = map id_col (sources d) \<and>
         (\<forall>r\<in>set (sources (processDocumentInBackground e src pre d)).
            id_col r = id_col src \<longrightarrow> status r = Error \<and> error_message r = Some msg)"
proof -
  have i: "map id_col rows = map id_col (sources d)" using assms by (rule extract_text_ids)
  have "map id_col (update_source (id_col src) (\<lambda>r. r\<lparr>status := Error, error_message := Some msg\<rparr>) rows) = map id_col rows"
    by (rule update_source_ids) simp
  with i show ?thesis unfolding job_error[OF assms] by (auto simp: update_source_def)
qed


lemma ai_call_client_error:
  "f 0 = Response st body \<Longrightarrow> 400 \<le> st \<Longrightarrow> st < 500 \<Longrightarrow> st \<noteq> 429 \<Longrightarrow>
   ai_call f = Inl (handleAiError st)"
  by (simp add: ai_call_def fetchWithRetry_def fetchWithRetry_loop.simps)

lemma ai_call_unreadable:
  "f 0 = UnreadableResponse st err \<Longrightarrow> 200 \<le> st \<Longrightarrow> st \<le> 299 \<Longrightarrow> ai_call f = Inl err"
  by (simp add: ai_call_def fetchWithRetry_def fetchWithRetry_loop.simps)




lemma single_row:
  "map id_col xs = [i] \<Longrightarrow> \<forall>r\<in>set xs. id_col r = i \<longrightarrow> P r \<Longrightarrow> \<exists>r. xs = [r] \<and> P r"
  by (cases xs) auto














lemma handler_accepts:
  assumes "req_method req \<noteq> ''OPTIONS''" "req_body req = Body (Some sourceId) preExtractedText"
    "sourceId \<noteq> []" "lovableApiKey = Some k" "k \<noteq> []"
    "filter (\<lambda>r. id_col r = sourceId) (sources d) = [src]"
  shows "handler lovableApiKey now req d =
     ((200, Started sourceId),
      d\<lparr>sources := update_source sourceId
           (\<lambda>r. r\<lparr>status := Processing, error_message := None,
                   processing_started_at := Some now, processing_progress := Some 0,
                   processing_info := Some ''Starting processing...''\<rparr>) (sources d)\<rparr>,
      Some (src, preExtractedText))"
  using assms by (simp add: handler_def)

lemma extract_text_too_large:
  assumes "preExtractedText = None \<or> preExtractedText = Some []" "file_type src = ''pdf''"
    "2 * (1024 * 1024) < file_size src" "download e (file_path src) = Inr fileData"
  shows "extract_text e src preExtractedText rows = (Inl (pdf_too_large_message (file_size src)), rows)"
  using assms by (auto simp: extract_text_def Let_def)

lemma job_ok_chunks:
  "extract_text e src pre (sources d) = (Inr (t, pc, ai), rows) \<Longrightarrow>
   source_chunks (processDocumentInBackground e src pre d) =
     insert_chunks (insert_fails e) 0
       (map (\<lambda>(index, c). \<lparr>source_id = id_col src, chunk_index = index, content = c\<rparr>)
          (zip [0..<length (if t \<noteq> [] then splitIntoSmartChunks t else [])]
               (if t \<noteq> [] then splitIntoSmartChunks t else [])))
       (filter (\<lambda>c. source_id c \<noteq> id_col src) (source_chunks d))"
  by (simp add: processDocumentInBackground_def Let_def)

lemma extractPdfContent_batched:
  "15 < ceil_div fileSize 50000 \<Longrightarrow> \<exists>res. fst (extractPdfContent e sid fileSize rows) = Inr res"
  by (simp add: extractPdfContent_def Let_def split: prod.splits)

lemma extractPdfContent_single:
  "ceil_div fileSize 50000 \<le> 15 \<Longrightarrow>
   fst (extractPdfContent e sid fileSize rows) = Inl msg \<longleftrightarrow> ai_call (gateway e PdfSingleCall) = Inl msg"
  by (simp add: extractPdfContent_def extractPdfSingleCall_def Let_def split: sum.splits)

lemma extractDocxContent_throws:
  "extractDocxContent e = Inl msg \<longleftrightarrow> ai_call (gateway e DocxCall) = Inl msg"
  by (simp add: extractDocxContent_def split: sum.splits)

lemma extract_text_throws_iff:
  "fst (extract_text e src pre rows) = Inl msg \<longleftrightarrow>
     (pre = None \<or> pre = Some []) \<and>
     ((\<exists>err. download e (file_path src) = Inl err \<and> msg = ''Failed to download file: '' @ err) \<or>
      (\<exists>fileData. download e (file_path src) = Inr fileData \<and>
         ((file_type src = ''pdf'' \<and> 2 * (1024 * 1024) < file_size src \<and>
             msg = pdf_too_large_message (file_size src)) \<or>
          (file_type src = ''pdf'' \<and> file_size src \<le> 2 * (1024 * 1024) \<and>
             ceil_div (file_size src) 50000 \<le> 15 \<and> ai_call (gateway e PdfSingleCall) = Inl msg) \<or>
          ((file_type src = ''docx'' \<or> file_type src = ''doc'') \<and>
             ai_call (gateway e DocxCall) = Inl msg))))"
proof (cases "pre = None \<or> pre = Some []")
  case False
  then obtain t where "pre = Some t" "t \<noteq> []" by (cases pre) auto
  then show ?thesis by (simp add: extract_text_def Let_def)
next
  case True
  then have np: "(case pre of None \<Rightarrow> False | Some t \<Rightarrow> length t > 0) = False" by auto
  show ?thesis
  proof (cases "download e (file_path src)")
    case (Inl err)
    then show ?thesis using True by (auto simp: extract_text_def Let_def np)
  next
    case (Inr fileData)
    have x: "fst (extract_text e src pre rows) =
       (if file_type src = ''txt'' then
          Inr (fileData, (let n = ceil_div (length fileData) ESTIMATED_CHARS_PER_PAGE in if n = 0 then 1 else n), 0)
        else if file_type src = ''pdf'' then
          (if file_size src > 2 * (1024 * 1024) then Inl (pdf_too_large_message (file_size src))
           else fst (extractPdfContent e (id_col src) (file_size src) rows))
        else if file_type src = ''docx'' \<or> file_type src = ''doc'' then extractDocxContent e
        else Inr ([], (case page_count src of None \<Rightarrow> 1 | Some n \<Rightarrow> if n = 0 then 1 else n), 0))"
      by (simp add: extract_text_def Let_def np Inr)
    show ?thesis
    proof (cases "file_type src = ''pdf''")
      case pdf: True
      show ?thesis
      proof (cases "file_size src > 2 * (1024 * 1024)")
        case True
        then show ?thesis using \<open>pre = None \<or> pre = Some []\<close> pdf Inr unfolding x by auto
      next
        case small: False
        show ?thesis
        proof (cases "ceil_div (file_size src) 50000 \<le> 15")
          case True
          then show ?thesis
            using \<open>pre = None \<or> pre = Some []\<close> pdf Inr small extractPdfContent_single[OF True]
            unfolding x by auto
        next
          case False
          then have "15 < ceil_div (file_size src) 50000" by simp
          from extractPdfContent_batched[OF this] obtain res where
            "fst (extractPdfContent e (id_col src) (file_size src) rows) = Inr res" by blast
          then show ?thesis
            using \<open>pre = None \<or> pre = Some []\<close> pdf Inr small False unfolding x by auto
        qed
      qed
    next
      case False
      then show ?thesis
        using \<open>pre = None \<or> pre = Some []\<close> Inr extractDocxContent_throws unfolding x by auto
    qed
  qed
qed
section \<open>Properties of the retrieval scorer\<close>

lemma string_includes_iff: "string_includes s kw \<longleftrightarrow> sublist kw s"
  by (induction s) (simp_all add: sublist_Cons_right)

lemma foldl_count:
  "foldl (\<lambda>acc kw. acc + (if P kw then 1 else 0)) a kws = a + length (filter P kws)"
  by (induction kws arbitrary: a) simp_all

lemma score_chunk_score:
  "score (score_chunk kws (c, n)) = length (filter (\<lambda>kw. sublist kw (toLowerCase (content c))) kws)"
  by (simp add: score_chunk_def Let_def foldl_count string_includes_iff)

lemma score_chunk_fields:
  "result_content (score_chunk kws (c, n)) = content c"
  "result_source_id (score_chunk kws (c, n)) = source_id c"
  "result_chunk_index (score_chunk kws (c, n)) = chunk_index c"
  by (simp_all add: score_chunk_def Let_def)

lemma select_chunks_rows:
  "(c, n) \<in> set (select_chunks d sid) \<Longrightarrow> source_id c = sid \<and> c \<in> set (source_chunks d)"
proof -
  assume "(c, n) \<in> set (select_chunks d sid)"
  then have "(c, n) \<in> set (concat (map (\<lambda>c. case find (\<lambda>s. id_col s = source_id c) (sources d) of
                             None \<Rightarrow> [] | Some s \<Rightarrow> [(c, name_col s)])
                    (filter (\<lambda>c. source_id c = sid) (source_chunks d))))"
    unfolding select_chunks_def by (rule in_set_takeD)
  then show ?thesis by (auto split: option.splits)
qed

lemma collect_results_elem:
  assumes "r \<in> set (collect_results d kws ids)"
  shows "0 < score r \<and> result_source_id r \<in> set (take 5 ids) \<and>
         score r = length (filter (\<lambda>kw. sublist kw (toLowerCase (result_content r))) kws) \<and>
         (\<exists>c\<in>set (source_chunks d). result_content r = content c \<and> result_source_id r = source_id c \<and>
             result_chunk_index r = chunk_index c)"
proof -
  from assms obtain sid row where sid: "sid \<in> set (take 5 ids)" and row: "row \<in> set (select_chunks d sid)"
    and r: "r = score_chunk kws row" and pos: "0 < score r"
    by (auto simp: collect_results_def)
  obtain c n where cn: "row = (c, n)" by (cases row)
  from select_chunks_rows row cn have c: "source_id c = sid" "c \<in> set (source_chunks d)" by blast+
  show ?thesis using sid pos c unfolding r cn
    by (auto simp: score_chunk_score score_chunk_fields)
qed

lemma accept_chunks_prefix:
  "\<exists>n. accept_chunks t lim xs = lim @ take n xs"
proof (induction xs arbitrary: t lim)
  case Nil
  then show ?case by simp
next
  case (Cons x xs)
  show ?case
  proof (cases "t + length (result_content x) > MAX_CONTEXT_CHARS")
    case True
    then have "accept_chunks t lim (x # xs) = lim @ take 0 (x # xs)" by simp
    then show ?thesis by blast
  next
    case False
    show ?thesis
    proof (cases "length (lim @ [x]) \<ge> MAX_CHUNKS")
      case True
      with False have "accept_chunks t lim (x # xs) = lim @ take 1 (x # xs)" by simp
      then show ?thesis by blast
    next
      case F2: False
      from Cons.IH[of "t + length (result_content x)" "lim @ [x]"] obtain n where
        "accept_chunks (t + length (result_content x)) (lim @ [x]) xs = (lim @ [x]) @ take n xs" by blast
      with False F2 have "accept_chunks t lim (x # xs) = lim @ take (Suc n) (x # xs)" by simp
      then show ?thesis by blast
    qed
  qed
qed





lemma sort_results_set: "set (sort_results xs) = set xs" "length (sort_results xs) = length xs"
  by (simp_all add: sort_results_def)

lemma collect_results_no_keywords: "collect_results d [] ids = []"
proof -
  have "score (score_chunk [] row) = 0" for row by (cases row) (simp add: score_chunk_score)
  then show ?thesis by (simp add: collect_results_def)
qed

lemma searchRelevantChunks_eq:
  "searchRelevantChunks d query sourceIds =
     accept_chunks 0 [] (sort_results (collect_results d (query_keywords query) (candidate_ids d sourceIds)))"
proof -
  have 1: "collect_results d kws [] = []" for kws by (simp add: collect_results_def)
  show ?thesis
    by (simp add: searchRelevantChunks_def Let_def 1 collect_results_no_keywords sort_results_def)
qed







lemmas scorer_eval =
  searchRelevantChunks_def candidate_ids_def query_keywords_def toLowerCase_def lower_char_def
  latin1_capital_def is_word_def is_lower_def is_upper_def is_digit_def is_space_def
  select_chunks_def collect_results_def score_chunk_def sort_results_def MAX_CHUNKS_def
  MAX_CONTEXT_CHARS_def Let_def



lemma search_six_documents:
  "map result_source_id
     (searchRelevantChunks
        \<lparr>sources = [\<lparr>id_col = ''a'', name_col = ''doc_a.txt'', file_path = ''u/doc_a.txt'', file_type = ''txt'',
              file_size = 100, status = Ready, error_message = None, uploaded_by = ''u'',
              content_preview = None, page_count = Some 1, processing_progress = Some 0,
              processing_info = None, processing_started_at = None, updated_at = 0\<rparr>,
             \<lparr>id_col = ''b'', name_col = ''doc_b.txt'', file_path = ''u/doc_b.txt'', file_type = ''txt'',
              file_size = 100, status = Ready, error_message = None, uploaded_by = ''u'',
              content_preview = None, page_count = Some 1, processing_progress = Some 0,
              processing_info = None, processing_started_at = None, updated_at = 0\<rparr>,
             \<lparr>id_col = ''c'', name_col = ''doc_c.txt'', file_path = ''u/doc_c.txt'', file_type = ''txt'',
              file_size = 100, status = Ready, error_message = None, uploaded_by = ''u'',
              content_preview = None, page_count = Some 1, processing_progress = Some 0,
              processing_info = None, processing_started_at = None, updated_at = 0\<rparr>,
             \<lparr>id_col = ''d'', name_col = ''doc_d.txt'', file_path = ''u/doc_d.txt'', file_type = ''txt'',
              file_size = 100, status = Ready, error_message = None, uploaded_by = ''u'',
              content_preview = None, page_count = Some 1, processing_progress = Some 0,
              processing_info = None, processing_started_at = None, updated_at = 0\<rparr>,
             \<lparr>id_col = ''e'', name_col = ''doc_e.txt'', file_path = ''u/doc_e.txt'', file_type = ''txt'',
              file_size = 100, status = Ready, error_message = None, uploaded_by = ''u'',
              content_preview = None, page_count = Some 1, processing_progress = Some 0,
              processing_info = None, processing_started_at = None, updated_at = 0\<rparr>,
             \<lparr>id_col = ''f'', name_col = ''doc_f.txt'', file_path = ''u/doc_f.txt'', file_type = ''txt'',
              file_size = 100, status = Ready, error_message = None, uploaded_by = ''u'',
              content_preview = None, page_count = Some 1, processing_progress = Some 0,
              processing_info = None, processing_started_at = None, updated_at = 0\<rparr>],
          source_chunks = [\<lparr>source_id = ''a'', chunk_index = 0, content = ''refund a''\<rparr>,
             \<lparr>source_id = ''b'', chunk_index = 0, content = ''refund b''\<rparr>,
             \<lparr>source_id = ''c'', chunk_index = 0, content = ''refund c''\<rparr>,
             \<lparr>source_id = ''d'', chunk_index = 0, content = ''refund d''\<rparr>,
             \<lparr>source_id = ''e'', chunk_index = 0, content = ''refund e''\<rparr>,
             \<lparr>source_id = ''f'', chunk_index = 0, content = ''refund f''\<rparr>],
          ai_usage_logs = []\<rparr>
        ''refund'' [''a'', ''b'', ''c'', ''d'', ''e'', ''f'']) = [''a'', ''b'', ''c'', ''d'', ''e'']"
  by (simp add: scorer_eval)

section \<open>Page markers through the chunker\<close>

subsection \<open>Global replacement around a stretch of text\<close>















lemma undot_token:
  "replace_all ''<<DOT>>'' ''.'' (''<<PAGE_MARKER>>'' @ Z) = ''<<PAGE_MARKER>>'' @ replace_all ''<<DOT>>'' ''.'' Z"
  by simp








subsection \<open>The separator and the split\<close>









subsection \<open>The abbreviation passes\<close>












subsection \<open>A marker stays in one sentence\<close>





subsection \<open>A marker stays in one chunk\<close>








section \<open>Theorems\<close>

text \<open>
  C1. The batched extraction writes \<^verbatim>\<open>updated_at\<close> as a heartbeat "for stuck detection",
  and the claim is that a document in status processing whose heartbeat is younger than
  the ten-minute threshold is left alone by one sweeper pass. The sweeper reads
  \<^verbatim>\<open>updated_at\<close> only when \<^verbatim>\<open>processing_started_at\<close> is null, and the ingestion handler
  always sets that column. Here: a job started at time 0, its last heartbeat at minute 14,
  the sweeper running at minute 15. The heartbeat is one minute old, and the document is
  forced to error all the same.
\<close>

theorem sweeper_ignores_heartbeat:
  "let d = \<lparr>id_col = ''d1'', name_col = ''big.pdf'', file_path = ''u/big.pdf'', file_type = ''pdf'',
            file_size = 1500000, status = Processing, error_message = None, uploaded_by = ''u'',
            content_preview = None, page_count = None, processing_progress = Some 53,
            processing_info = Some ''Processing pages 21-25 of ~30...'',
            processing_started_at = Some 0, updated_at = 840000\<rparr>;
       now = 900000
   in status d = Processing \<and> now - STUCK_THRESHOLD_MINUTES * 60 * 1000 < updated_at d \<and>
      map status (cleanup_stuck_documents now [d]) = [Error] \<and>
      map error_message (cleanup_stuck_documents now [d]) =
        [Some ''Processing timed out after 15 minutes. Click Reprocess to try again.'']"
  by (simp add: cleanup_stuck_documents_def is_stuck_def STUCK_THRESHOLD_MINUTES_def
      update_source_def mark_stuck_def stuckMinutes_def show_int_def show_nat.simps digit_char_def
      Let_def)

text \<open>
  C2, as stated: every chunk is at most \<open>targetChunkSize\<close> = 2000 characters long unless a
  single sentence exceeds that size. The test in the loop adds the lengths of the current
  chunk and of the sentence, and leaves out the space that joins them: two sentences of
  1000 characters make one chunk of 2001.
\<close>

theorem chunk_over_target_counterexample:
  "splitIntoSentences ((replicate 999 CHR ''a'' @ ''!'') @ CHR '' '' # CHR ''A'' # replicate 998 CHR ''a'' @ ''!'') =
     [replicate 999 CHR ''a'' @ ''!'', CHR ''A'' # replicate 998 CHR ''a'' @ ''!''] \<and>
   splitIntoSmartChunks ((replicate 999 CHR ''a'' @ ''!'') @ CHR '' '' # CHR ''A'' # replicate 998 CHR ''a'' @ ''!'') =
     [(replicate 999 CHR ''a'' @ ''!'') @ '' '' @ CHR ''A'' # replicate 998 CHR ''a'' @ ''!''] \<and>
   length (replicate 999 CHR ''a'' @ ''!'') = 1000 \<and>
   length (CHR ''A'' # replicate 998 CHR ''a'' @ ''!'') = 1000 \<and>
   length ((replicate 999 CHR ''a'' @ ''!'') @ '' '' @ CHR ''A'' # replicate 998 CHR ''a'' @ ''!'') = 2001 \<and>
   targetChunkSize = 2000"
proof -
  define u1 where "u1 = replicate 999 CHR ''a'' @ ''!''"
  define u2 where "u2 = CHR ''A'' # replicate 998 CHR ''a'' @ ''!''"
  have l1: "length u1 = 1000" and l2: "length u2 = 1000" by (simp_all add: u1_def u2_def)
  have n: "u1 \<noteq> []" "u2 \<noteq> []" by (simp_all add: u1_def u2_def)
  have t1: "trim u1 = u1" by (rule trim_id) (simp_all add: is_space_def hd_append u1_def)
  have t2: "trim u2 = u2" by (rule trim_id) (simp_all add: is_space_def u2_def)
  have t3: "trim (u1 @ '' '' @ u2) = u1 @ '' '' @ u2"
    by (rule trim_id) (simp_all add: is_space_def hd_append u1_def u2_def)
  have ts: "targetChunkSize = 2000" by (simp add: targetChunkSize_def CHUNK_SIZE_TOKENS_def CHARS_PER_TOKEN_def)
  have cc: "closed_chunks [u1, u2] = [u1 @ '' '' @ u2]"
    by (rule closed_chunks_pair[OF t1 n(1) t2 n(2) _ t3]) (simp add: ts l1 l2)
  have s: "splitIntoSentences (u1 @ CHR '' '' # u2) = [u1, u2]"
    unfolding u1_def u2_def by (rule sentences_two)
  have l3: "length (u1 @ '' '' @ u2) = 2001" by (simp add: l1 l2)
  have "splitIntoSmartChunks (u1 @ CHR '' '' # u2) = [u1 @ '' '' @ u2]"
    unfolding splitIntoSmartChunks_def s cc using l3 by simp
  with s l1 l2 l3 ts show ?thesis unfolding u1_def u2_def by blast
qed


text \<open>
  C2, amended: every chunk is at most 2001 characters long (the target and the joining
  space), or at most 401 characters longer than some sentence (a chunk opened after a
  close starts with the overlap buffer, at most \<open>overlapSize\<close> = 400 characters, and a
  space, whatever the length of the sentence that follows).
\<close>

theorem chunk_length_bound:
  "\<forall>c\<in>set (splitIntoSmartChunks text).
     length c \<le> targetChunkSize + 1 \<or>
     (\<exists>s\<in>set (splitIntoSentences text). length c \<le> overlapSize + 1 + length (trim s))"
  by (auto simp: splitIntoSmartChunks_def dest: closed_chunks_bound)

theorem chunk_length_bound_witness:
  "''=== PAGE 1 of 1 ===\<newline>Hello world, this is a page of sample text''
     \<in> set (splitIntoSmartChunks ''=== PAGE 1 of 1 ===\<newline>Hello world, this is a page of sample text'') \<and>
   (length ''=== PAGE 1 of 1 ===\<newline>Hello world, this is a page of sample text'' \<le> targetChunkSize + 1 \<or>
    (\<exists>s\<in>set (splitIntoSentences ''=== PAGE 1 of 1 ===\<newline>Hello world, this is a page of sample text'').
       length ''=== PAGE 1 of 1 ===\<newline>Hello world, this is a page of sample text'' \<le> overlapSize + 1 + length (trim s)))"
proof -
  let ?T = "''=== PAGE 1 of 1 ===\<newline>Hello world, this is a page of sample text''"
  have "trim ?T = ?T" by (rule trim_id) (simp_all add: is_space_def)
  then have "closed_chunks [?T] = [?T]" by (rule closed_chunks_single) simp
  then have m: "?T \<in> set (splitIntoSmartChunks ?T)"
    by (simp add: splitIntoSmartChunks_def page_text_sentences)
  with chunk_length_bound[of ?T] show ?thesis by blast
qed



text \<open>
  C4. The retrying transport returns a 4xx response other than 429 at once and retries
  5xx and 429 with delays of 1000, 2000 and 4000 ms; the claim adds that on exhaustion the
  original error propagates. When all three attempts answer 429, no response is returned
  and no network exception was recorded: the caller gets the generic
  \<^verbatim>\<open>Max retries exceeded\<close>, and \<^verbatim>\<open>handleAiError\<close> never sees the 429 it has a message for.
\<close>

theorem fetchWithRetry_exhausted_429:
  "fetchWithRetry (\<lambda>k. Response 429 []) 3 = ([1000, 2000, 4000], Inl ''Max retries exceeded'') \<and>
   ai_call (\<lambda>k. Response 429 []) = Inl ''Max retries exceeded'' \<and>
   handleAiError 429 = ''AI rate limit exceeded. Please try again in a few minutes.''"
  by (simp add: fetchWithRetry_def fetchWithRetry_loop.simps ai_call_def handleAiError_def)



text \<open>
  C6, as stated: every document whose extraction fails terminally (quota exhaustion, a
  persistent 4xx, exhausted retries) ends in status error with its stored chunks untouched.
  In the batched extraction of a PDF the error of an AI call does not reach the job
  boundary: the \<^verbatim>\<open>catch\<close> inside the loop of \<^verbatim>\<open>extractPdfInBatches\<close> puts a placeholder in
  the place of the batch and goes on. A PDF of 800000 bytes (16 estimated pages, four
  batches) for which every call answers 402 ends in status ready with no error message,
  and the chunk stored by the previous run is replaced by one chunk made of the four
  placeholders.
\<close>

theorem batched_failure_not_terminal_counterexample:
  "let S = \<lparr>id_col = ''s1'', name_col = ''scan.pdf'', file_path = ''u/scan.pdf'', file_type = ''pdf'',
            file_size = 800000, status = Processing, error_message = None, uploaded_by = ''u'',
            content_preview = Some ''text of the previous run'', page_count = Some 1,
            processing_progress = Some 0, processing_info = None, processing_started_at = Some 0,
            updated_at = 0\<rparr>;
       E = \<lparr>download = (\<lambda>p. Inr ''%PDF''), gateway = (\<lambda>r k. Response 402 []),
            clock = (\<lambda>b. 0), insert_fails = (\<lambda>k. False)\<rparr>;
       D = \<lparr>sources = [S],
            source_chunks = [\<lparr>source_id = ''s1'', chunk_index = 0, content = ''text of the previous run''\<rparr>],
            ai_usage_logs = []\<rparr>;
       T = ''[Error extracting pages 1-5]\<newline>\<newline>[Error extracting pages 6-10]\<newline>\<newline>[Error extracting pages 11-15]\<newline>\<newline>[Error extracting pages 16-16]''
   in ai_call (gateway E (PdfPageRange 1 5 16)) = Inl ''AI credits exhausted. Please add funds to continue.'' \<and>
      (\<exists>pageCount aiCalls rows. extract_text E S None (sources D) = (Inr (T, pageCount, aiCalls), rows)) \<and>
      map status (sources (processDocumentInBackground E S None D)) = [Ready] \<and>
      map error_message (sources (processDocumentInBackground E S None D)) = [None] \<and>
      source_chunks (processDocumentInBackground E S None D) =
        [\<lparr>source_id = ''s1'', chunk_index = 0, content = T\<rparr>]"
proof -
  define S where "S = \<lparr>id_col = ''s1'', name_col = ''scan.pdf'', file_path = ''u/scan.pdf'', file_type = ''pdf'',
            file_size = 800000, status = Processing, error_message = None, uploaded_by = ''u'',
            content_preview = Some ''text of the previous run'', page_count = Some 1,
            processing_progress = Some 0, processing_info = None, processing_started_at = Some 0,
            updated_at = 0\<rparr>"
  define E where "E = \<lparr>download = (\<lambda>p. Inr ''%PDF''), gateway = (\<lambda>r k. Response 402 []),
            clock = (\<lambda>b. 0), insert_fails = (\<lambda>k. False)\<rparr>"
  define D where "D = \<lparr>sources = [S],
            source_chunks = [\<lparr>source_id = ''s1'', chunk_index = 0, content = ''text of the previous run''\<rparr>],
            ai_usage_logs = []\<rparr>"
  define T where "T = ''[Error extracting pages 1-5]\<newline>\<newline>[Error extracting pages 6-10]\<newline>\<newline>[Error extracting pages 11-15]\<newline>\<newline>[Error extracting pages 16-16]''"
  define J where "J = processDocumentInBackground E S None D"
  have f: "file_size S = 800000" "file_type S = ''pdf''" "id_col S = ''s1''" by (simp_all add: S_def)
  have a: "ai_call (gateway E r) = Inl ''AI credits exhausted. Please add funds to continue.''" for r
  proof -
    have "ai_call (gateway E r) = Inl (handleAiError 402)"
      by (rule ai_call_client_error[where body = "[]"]) (simp_all add: E_def)
    then show ?thesis by (simp add: handleAiError_def)
  qed
  have bt: "batch_text E 16 b = batch_error_marker (batch_startPage b) (batch_endPage 16 b)" for b
    by (simp add: batch_text_def extractPdfPageRange_def a)
  have j: "join ''\<newline>\<newline>'' (map (batch_text E 16) [0..<ceil_div 16 PAGES_PER_BATCH]) = T"
  proof -
    have u: "[0..<ceil_div 16 PAGES_PER_BATCH] = [0, 1, 2, 3]"
      by (simp add: ceil_div_def PAGES_PER_BATCH_def upt_rec)
    show ?thesis
      unfolding u T_def
      by (simp add: bt batch_error_marker_def batch_startPage_def batch_endPage_def PAGES_PER_BATCH_def
          show_nat.simps digit_char_def)
  qed
  obtain pc ai rows' where b: "extractPdfInBatches E (id_col S) 16 (sources D) =
      ((join ''\<newline>\<newline>'' (map (batch_text E 16) [0..<ceil_div 16 PAGES_PER_BATCH]), pc, ai), rows')"
    using extractPdfInBatches_text by blast
  have c: "extractPdfContent E (id_col S) (file_size S) (sources D) = (Inr (T, pc, ai), rows')"
    using b unfolding j by (simp add: extractPdfContent_def Let_def f ceil_div_def)
  have dl: "download E (file_path S) = Inr ''%PDF''" by (simp add: E_def)
  have x: "extract_text E S None (sources D) = (Inr (T, pc, ai), rows')"
    by (simp add: extract_text_def Let_def dl f c[unfolded f])
  have tn: "T \<noteq> []" by (simp add: T_def)
  have sen: "splitIntoSentences T = [T]"
    unfolding T_def by (rule splitIntoSentences_plain) simp_all
  have tr: "trim T = T"
    by (rule trim_id) (simp_all add: T_def is_space_def)
  have len: "50 < length T" by (simp add: T_def)
  have ch: "splitIntoSmartChunks T = [T]"
    using len by (simp add: splitIntoSmartChunks_def sen closed_chunks_single[OF tr tn])
  have chunks: "source_chunks J = [\<lparr>source_id = ''s1'', chunk_index = 0, content = T\<rparr>]"
    unfolding J_def job_ok_chunks[OF x]
    by (simp add: tn ch f) (simp add: D_def E_def insert_chunks.simps)
  note R = job_ok_ready[OF x]
  have ids: "map id_col (sources J) = [''s1'']" using R by (simp add: J_def D_def f)
  have bl: "\<forall>r\<in>set (sources J). id_col r = ''s1'' \<longrightarrow> status r = Ready \<and> error_message r = None"
    using R by (simp add: J_def f)
  obtain r where "sources J = [r]" "status r = Ready \<and> error_message r = None"
    using single_row[OF ids bl] by blast
  then have st: "map status (sources J) = [Ready]" "map error_message (sources J) = [None]" by simp_all
  have "ai_call (gateway E (PdfPageRange 1 5 16)) = Inl ''AI credits exhausted. Please add funds to continue.'' \<and>
      (\<exists>pageCount aiCalls rows. extract_text E S None (sources D) = (Inr (T, pageCount, aiCalls), rows)) \<and>
      map status (sources J) = [Ready] \<and>
      map error_message (sources J) = [None] \<and>
      source_chunks J = [\<lparr>source_id = ''s1'', chunk_index = 0, content = T\<rparr>]"
    using a x st chunks by blast
  then show ?thesis unfolding Let_def J_def S_def E_def D_def T_def .
qed

text \<open>
  C6, amended: the extraction phase of the job throws an error with message \<open>msg\<close> exactly
  when no pre-extracted text is supplied and either the download fails, or the file is a
  PDF above 2 MB, or the file is a PDF of at most 15 estimated pages and its single AI call
  fails with \<open>msg\<close>, or the file is a DOCX or DOC and its AI call fails with \<open>msg\<close> (an AI
  call fails on exhausted retries, on a status that is not ok, such as 402 or another 4xx,
  and on a body that cannot be read). Whenever it throws, the \<^verbatim>\<open>catch\<close> at the job boundary
  sets every row of the document to status error with \<open>msg\<close> as \<^verbatim>\<open>error_message\<close>, and the
  table of chunks is what it was before the job: the delete and the inserts come after the
  extraction in the \<^verbatim>\<open>try\<close> block. A PDF extracted in batches never throws there.
\<close>

theorem terminal_failure_atomic:
  "(fst (extract_text e src preExtractedText (sources d)) = Inl msg \<longleftrightarrow>
      (preExtractedText = None \<or> preExtractedText = Some []) \<and>
      ((\<exists>err. download e (file_path src) = Inl err \<and> msg = ''Failed to download file: '' @ err) \<or>
       (\<exists>fileData. download e (file_path src) = Inr fileData \<and>
          ((file_type src = ''pdf'' \<and> 2 * (1024 * 1024) < file_size src \<and>
              msg = pdf_too_large_message (file_size src)) \<or>
           (file_type src = ''pdf'' \<and> file_size src \<le> 2 * (1024 * 1024) \<and>
              ceil_div (file_size src) 50000 \<le> 15 \<and> ai_call (gateway e PdfSingleCall) = Inl msg) \<or>
           ((file_type src = ''docx'' \<or> file_type src = ''doc'') \<and>
              ai_call (gateway e DocxCall) = Inl msg))))) \<and>
   (fst (extract_text e src preExtractedText (sources d)) = Inl msg \<longrightarrow>
      source_chunks (processDocumentInBackground e src preExtractedText d) = source_chunks d \<and>
      map id_col (sources (processDocumentInBackground e src preExtractedText d)) = map id_col (sources d) \<and>
      (\<forall>r\<in>set (sources (processDocumentInBackground e src preExtractedText d)).
         id_col r = id_col src \<longrightarrow> status r = Error \<and> error_message r = Some msg))"
proof (intro conjI impI)
  show "fst (extract_text e src preExtractedText (sources d)) = Inl msg \<longleftrightarrow>
      (preExtractedText = None \<or> preExtractedText = Some []) \<and>
      ((\<exists>err. download e (file_path src) = Inl err \<and> msg = ''Failed to download file: '' @ err) \<or>
       (\<exists>fileData. download e (file_path src) = Inr fileData \<and>
          ((file_type src = ''pdf'' \<and> 2 * (1024 * 1024) < file_size src \<and>
              msg = pdf_too_large_message (file_size src)) \<or>
           (file_type src = ''pdf'' \<and> file_size src \<le> 2 * (1024 * 1024) \<and>
              ceil_div (file_size src) 50000 \<le> 15 \<and> ai_call (gateway e PdfSingleCall) = Inl msg) \<or>
           ((file_type src = ''docx'' \<or> file_type src = ''doc'') \<and>
              ai_call (gateway e DocxCall) = Inl msg))))"
    by (rule extract_text_throws_iff)
next
  assume "fst (extract_text e src preExtractedText (sources d)) = Inl msg"
  then obtain rows where x: "extract_text e src preExtractedText (sources d) = (Inl msg, rows)"
    by (cases "extract_text e src preExtractedText (sources d)") auto
  from job_error_state[OF x]
  show "source_chunks (processDocumentInBackground e src preExtractedText d) = source_chunks d"
    "map id_col (sources (processDocumentInBackground e src preExtractedText d)) = map id_col (sources d)"
    "\<forall>r\<in>set (sources (processDocumentInBackground e src preExtractedText d)).
         id_col r = id_col src \<longrightarrow> status r = Error \<and> error_message r = Some msg"
    by blast+
qed

theorem terminal_failure_atomic_witness:
  "let S = \<lparr>id_col = ''s1'', name_col = ''memo.docx'', file_path = ''u/memo.docx'', file_type = ''docx'',
            file_size = 20000, status = Processing, error_message = None, uploaded_by = ''u'',
            content_preview = Some ''text of the previous run'', page_count = Some 1,
            processing_progress = Some 0, processing_info = None, processing_started_at = Some 0,
            updated_at = 0\<rparr>;
       E = \<lparr>download = (\<lambda>p. Inr ''PK''), gateway = (\<lambda>r k. Response 402 []),
            clock = (\<lambda>b. 0), insert_fails = (\<lambda>k. False)\<rparr>;
       D = \<lparr>sources = [S],
            source_chunks = [\<lparr>source_id = ''s1'', chunk_index = 0, content = ''text of the previous run''\<rparr>],
            ai_usage_logs = []\<rparr>
   in download E (file_path S) = Inr ''PK'' \<and> file_type S = ''docx'' \<and>
      ai_call (gateway E DocxCall) = Inl ''AI credits exhausted. Please add funds to continue.'' \<and>
      fst (extract_text E S None (sources D)) = Inl ''AI credits exhausted. Please add funds to continue.'' \<and>
      source_chunks (processDocumentInBackground E S None D) =
        [\<lparr>source_id = ''s1'', chunk_index = 0, content = ''text of the previous run''\<rparr>] \<and>
      map status (sources (processDocumentInBackground E S None D)) = [Error] \<and>
      map error_message (sources (processDocumentInBackground E S None D)) =
        [Some ''AI credits exhausted. Please add funds to continue.'']"
proof -
  define S where "S = \<lparr>id_col = ''s1'', name_col = ''memo.docx'', file_path = ''u/memo.docx'', file_type = ''docx'',
            file_size = 20000, status = Processing, error_message = None, uploaded_by = ''u'',
            content_preview = Some ''text of the previous run'', page_count = Some 1,
            processing_progress = Some 0, processing_info = None, processing_started_at = Some 0,
            updated_at = 0\<rparr>"
  define E where "E = \<lparr>download = (\<lambda>p. Inr ''PK''), gateway = (\<lambda>r k. Response 402 []),
            clock = (\<lambda>b. 0), insert_fails = (\<lambda>k. False)\<rparr>"
  define D where "D = \<lparr>sources = [S],
            source_chunks = [\<lparr>source_id = ''s1'', chunk_index = 0, content = ''text of the previous run''\<rparr>],
            ai_usage_logs = []\<rparr>"
  define J where "J = processDocumentInBackground E S None D"
  define M where "M = ''AI credits exhausted. Please add funds to continue.''"
  have dl: "download E (file_path S) = Inr ''PK''" by (simp add: E_def)
  have ft: "file_type S = ''docx''" by (simp add: S_def)
  have a: "ai_call (gateway E DocxCall) = Inl M"
  proof -
    have "ai_call (gateway E DocxCall) = Inl (handleAiError 402)"
      by (rule ai_call_client_error[where body = "[]"]) (simp_all add: E_def)
    then show ?thesis by (simp add: handleAiError_def M_def)
  qed
  note W = terminal_failure_atomic[where e = E and src = S and preExtractedText = None and d = D and msg = M]
  have x: "fst (extract_text E S None (sources D)) = Inl M"
    using W dl ft a by blast
  have W2: "source_chunks J = source_chunks D \<and> map id_col (sources J) = map id_col (sources D) \<and>
         (\<forall>r\<in>set (sources J). id_col r = id_col S \<longrightarrow> status r = Error \<and> error_message r = Some M)"
    unfolding J_def using W x by blast
  have ids: "map id_col (sources J) = [''s1'']" using W2 by (simp add: D_def S_def)
  have b: "\<forall>r\<in>set (sources J). id_col r = ''s1'' \<longrightarrow> status r = Error \<and> error_message r = Some M"
    using W2 by (simp add: S_def)
  obtain r where "sources J = [r]" "status r = Error \<and> error_message r = Some M"
    using single_row[OF ids b] by blast
  then have "map status (sources J) = [Error]" "map error_message (sources J) = [Some M]" by simp_all
  moreover have "source_chunks J = [\<lparr>source_id = ''s1'', chunk_index = 0, content = ''text of the previous run''\<rparr>]"
    using W2 by (simp add: D_def)
  ultimately have "download E (file_path S) = Inr ''PK'' \<and> file_type S = ''docx'' \<and>
      ai_call (gateway E DocxCall) = Inl M \<and>
      fst (extract_text E S None (sources D)) = Inl M \<and>
      source_chunks J =
        [\<lparr>source_id = ''s1'', chunk_index = 0, content = ''text of the previous run''\<rparr>] \<and>
      map status (sources J) = [Error] \<and>
      map error_message (sources J) = [Some M]"
    using x dl ft a by blast
  then show ?thesis unfolding Let_def J_def S_def E_def D_def M_def .
qed
text \<open>
  C7, as stated: an oversized PDF (above 2 MB, no pre-extracted text) is rejected in the
  response of the ingestion trigger and no job is started. The handler never looks at the
  size: it sets the document to processing, starts the background job and answers 200
  \<^verbatim>\<open>Document processing started\<close>.
\<close>

theorem oversized_pdf_accepted_counterexample:
  "let S = \<lparr>id_col = ''s1'', name_col = ''big.pdf'', file_path = ''u/big.pdf'', file_type = ''pdf'',
            file_size = 3000000, status = Pending, error_message = None, uploaded_by = ''u'',
            content_preview = None, page_count = None, processing_progress = Some 0,
            processing_info = None, processing_started_at = None, updated_at = 0\<rparr>;
       D = \<lparr>sources = [S], source_chunks = [], ai_usage_logs = []\<rparr>;
       req = \<lparr>req_method = ''POST'', req_body = Body (Some ''s1'') None\<rparr>
   in 2 * (1024 * 1024) < file_size S \<and>
      handler (Some ''key'') 1000 req D =
        ((200, Started ''s1''),
         \<lparr>sources = [S\<lparr>status := Processing, error_message := None,
                         processing_started_at := Some 1000, processing_progress := Some 0,
                         processing_info := Some ''Starting processing...''\<rparr>],
          source_chunks = [], ai_usage_logs = []\<rparr>,
         Some (S, None))"
  by (simp add: Let_def handler_def update_source_def)

text \<open>
  C7, amended: the trigger accepts an oversized PDF like any other document (status
  processing, job started, response 200); the background job rejects it after the
  download, before any AI call: the document ends in status error with the guidance
  message as \<^verbatim>\<open>error_message\<close>, and the chunks are untouched.
\<close>

theorem oversized_pdf_rejected_in_background:
  assumes "req_method req \<noteq> ''OPTIONS''" "req_body req = Body (Some sourceId) preExtractedText"
    "sourceId \<noteq> []" "lovableApiKey = Some k" "k \<noteq> []"
    "filter (\<lambda>r. id_col r = sourceId) (sources d) = [src]"
    "preExtractedText = None \<or> preExtractedText = Some []" "file_type src = ''pdf''"
    "2 * (1024 * 1024) < file_size src" "download e (file_path src) = Inr fileData"
  shows "fst (handler lovableApiKey now req d) = (200, Started sourceId) \<and>
         snd (snd (handler lovableApiKey now req d)) = Some (src, preExtractedText) \<and>
         fst (serve_and_run e lovableApiKey now req d) = (200, Started sourceId) \<and>
         source_chunks (snd (serve_and_run e lovableApiKey now req d)) = source_chunks d \<and>
         map id_col (sources (snd (serve_and_run e lovableApiKey now req d))) = map id_col (sources d) \<and>
         (\<forall>r\<in>set (sources (snd (serve_and_run e lovableApiKey now req d))).
            id_col r = sourceId \<longrightarrow>
              status r = Error \<and> error_message r = Some (pdf_too_large_message (file_size src)))"
proof -
  define d1 where "d1 = d\<lparr>sources := update_source sourceId
           (\<lambda>r. r\<lparr>status := Processing, error_message := None,
                   processing_started_at := Some now, processing_progress := Some 0,
                   processing_info := Some ''Starting processing...''\<rparr>) (sources d)\<rparr>"
  have h: "handler lovableApiKey now req d = ((200, Started sourceId), d1, Some (src, preExtractedText))"
    unfolding d1_def by (rule handler_accepts[OF assms(1-6)])
  have "src \<in> set (filter (\<lambda>r. id_col r = sourceId) (sources d))" using assms(6) by simp
  then have sid: "id_col src = sourceId" by simp
  have ids1: "map id_col (sources d1) = map id_col (sources d)"
    unfolding d1_def by (simp add: update_source_ids)
  have c1: "source_chunks d1 = source_chunks d" by (simp add: d1_def)
  note x = extract_text_too_large[OF assms(7-10), of "sources d1"]
  note J = job_error_state[OF x]
  have s: "serve_and_run e lovableApiKey now req d =
           ((200, Started sourceId), processDocumentInBackground e src preExtractedText d1)"
    by (simp add: serve_and_run_def h)
  show ?thesis using J h ids1 c1 sid unfolding s by simp
qed

theorem oversized_pdf_rejected_in_background_witness:
  "let S = \<lparr>id_col = ''s1'', name_col = ''big.pdf'', file_path = ''u/big.pdf'', file_type = ''pdf'',
            file_size = 3000000, status = Pending, error_message = None, uploaded_by = ''u'',
            content_preview = None, page_count = None, processing_progress = Some 0,
            processing_info = None, processing_started_at = None, updated_at = 0\<rparr>;
       E = \<lparr>download = (\<lambda>p. Inr ''%PDF''), gateway = (\<lambda>r k. Response 200 ''text''),
            clock = (\<lambda>b. 0), insert_fails = (\<lambda>k. False)\<rparr>;
       D = \<lparr>sources = [S], source_chunks = [], ai_usage_logs = []\<rparr>;
       req = \<lparr>req_method = ''POST'', req_body = Body (Some ''s1'') None\<rparr>
   in 2 * (1024 * 1024) < file_size S \<and>
      fst (serve_and_run E (Some ''key'') 1000 req D) = (200, Started ''s1'') \<and>
      map status (sources (snd (serve_and_run E (Some ''key'') 1000 req D))) = [Error] \<and>
      map error_message (sources (snd (serve_and_run E (Some ''key'') 1000 req D))) =
        [Some (''PDF too large for server-side processing (2.9MB). '' @
               ''Please try re-uploading - client-side extraction should handle this automatically. '' @
               ''If the issue persists, try a smaller file or contact support.'')]"
proof -
  define S where "S = \<lparr>id_col = ''s1'', name_col = ''big.pdf'', file_path = ''u/big.pdf'', file_type = ''pdf'',
            file_size = 3000000, status = Pending, error_message = None, uploaded_by = ''u'',
            content_preview = None, page_count = None, processing_progress = Some 0,
            processing_info = None, processing_started_at = None, updated_at = 0\<rparr>"
  define E where "E = \<lparr>download = (\<lambda>p. Inr ''%PDF''), gateway = (\<lambda>r k. Response 200 ''text''),
            clock = (\<lambda>b. 0), insert_fails = (\<lambda>k. False)\<rparr>"
  define D where "D = \<lparr>sources = [S], source_chunks = [], ai_usage_logs = []\<rparr>"
  define req where "req = \<lparr>req_method = ''POST'', req_body = Body (Some ''s1'') None\<rparr>"
  define R where "R = serve_and_run E (Some ''key'') 1000 req D"
  have big: "2 * (1024 * 1024) < file_size S" by (simp add: S_def)
  have msg: "pdf_too_large_message (file_size S) =
        ''PDF too large for server-side processing (2.9MB). '' @
        ''Please try re-uploading - client-side extraction should handle this automatically. '' @
        ''If the issue persists, try a smaller file or contact support.''"
    by (simp add: S_def pdf_too_large_message_def fileSizeMB_toFixed1_def show_nat.simps digit_char_def)
  have W: "fst (handler (Some ''key'') 1000 req D) = (200, Started ''s1'') \<and>
         snd (snd (handler (Some ''key'') 1000 req D)) = Some (S, None) \<and>
         fst R = (200, Started ''s1'') \<and>
         source_chunks (snd R) = source_chunks D \<and>
         map id_col (sources (snd R)) = map id_col (sources D) \<and>
         (\<forall>r\<in>set (sources (snd R)).
            id_col r = ''s1'' \<longrightarrow>
              status r = Error \<and> error_message r = Some (pdf_too_large_message (file_size S)))"
    unfolding R_def
    by (rule oversized_pdf_rejected_in_background[where k = "''key''" and fileData = "''%PDF''"])
       (simp_all add: req_def D_def S_def E_def)
  have ids: "map id_col (sources (snd R)) = [''s1'']" using W by (simp add: D_def S_def)
  obtain r where "sources (snd R) = [r]"
    "status r = Error \<and> error_message r = Some (pdf_too_large_message (file_size S))"
    using single_row[OF ids, of "\<lambda>r. status r = Error \<and> error_message r = Some (pdf_too_large_message (file_size S))"] W
    by blast
  then have "map status (sources (snd R)) = [Error]"
    "map error_message (sources (snd R)) = [Some (pdf_too_large_message (file_size S))]" by simp_all
  with W big have "2 * (1024 * 1024) < file_size S \<and> fst R = (200, Started ''s1'') \<and>
      map status (sources (snd R)) = [Error] \<and>
      map error_message (sources (snd R)) =
        [Some (''PDF too large for server-side processing (2.9MB). '' @
               ''Please try re-uploading - client-side extraction should handle this automatically. '' @
               ''If the issue persists, try a smaller file or contact support.'')]"
    unfolding msg by blast
  then show ?thesis unfolding Let_def R_def S_def E_def D_def req_def .
qed






text \<open>
  C10. Only the first five candidate documents are searched: every chunk of the answer
  belongs to one of the first five ids of the candidate list (the ids supplied, or those
  of the ready documents gathered when none is supplied), so with distinct ids no chunk
  of the sixth or a later document appears, however well it matches the query.
\<close>

theorem only_first_five_documents:
  "(\<forall>r\<in>set (searchRelevantChunks d query sourceIds).
      result_source_id r \<in> set (take 5 (candidate_ids d sourceIds))) \<and>
   (distinct (candidate_ids d sourceIds) \<longrightarrow>
      (\<forall>i. 5 \<le> i \<and> i < length (candidate_ids d sourceIds) \<longrightarrow>
         (\<forall>r\<in>set (searchRelevantChunks d query sourceIds).
            result_source_id r \<noteq> candidate_ids d sourceIds ! i)))"
proof -
  define ids where "ids = candidate_ids d sourceIds"
  have a: "result_source_id r \<in> set (take 5 ids)" if "r \<in> set (searchRelevantChunks d query sourceIds)" for r
  proof -
    obtain n where "searchRelevantChunks d query sourceIds =
        take n (sort_results (collect_results d (query_keywords query) ids))"
      using accept_chunks_prefix[of 0 "[]"] unfolding searchRelevantChunks_eq ids_def by auto
    with that have "r \<in> set (sort_results (collect_results d (query_keywords query) ids))"
      by (metis in_set_takeD)
    then have "r \<in> set (collect_results d (query_keywords query) ids)" by (simp add: sort_results_set)
    then show ?thesis using collect_results_elem by blast
  qed
  have b: "ids ! i \<notin> set (take 5 ids)" if "distinct ids" "5 \<le> i" "i < length ids" for i
  proof
    assume "ids ! i \<in> set (take 5 ids)"
    then obtain j where j: "j < length (take 5 ids)" "take 5 ids ! j = ids ! i"
      by (auto simp: in_set_conv_nth)
    then have "j < 5" "j < length ids" "ids ! j = ids ! i" by simp_all
    with that have "j = i" by (simp add: nth_eq_iff_index_eq)
    with \<open>j < 5\<close> that(2) show False by simp
  qed
  show ?thesis
    unfolding ids_def[symmetric] using a b by (intro conjI ballI impI allI) (simp_all, metis)
qed

theorem only_first_five_documents_witness:
  "let D = \<lparr>sources = [\<lparr>id_col = ''a'', name_col = ''doc_a.txt'', file_path = ''u/doc_a.txt'', file_type = ''txt'',
              file_size = 100, status = Ready, error_message = None, uploaded_by = ''u'',
              content_preview = None, page_count = Some 1, processing_progress = Some 0,
              processing_info = None, processing_started_at = None, updated_at = 0\<rparr>,
             \<lparr>id_col = ''b'', name_col = ''doc_b.txt'', file_path = ''u/doc_b.txt'', file_type = ''txt'',
              file_size = 100, status = Ready, error_message = None, uploaded_by = ''u'',
              content_preview = None, page_count = Some 1, processing_progress = Some 0,
              processing_info = None, processing_started_at = None, updated_at = 0\<rparr>,
             \<lparr>id_col = ''c'', name_col = ''doc_c.txt'', file_path = ''u/doc_c.txt'', file_type = ''txt'',
              file_size = 100, status = Ready, error_message = None, uploaded_by = ''u'',
              content_preview = None, page_count = Some 1, processing_progress = Some 0,
              processing_info = None, processing_started_at = None, updated_at = 0\<rparr>,
             \<lparr>id_col = ''d'', name_col = ''doc_d.txt'', file_path = ''u/doc_d.txt'', file_type = ''txt'',
              file_size = 100, status = Ready, error_message = None, uploaded_by = ''u'',
              content_preview = None, page_count = Some 1, processing_progress = Some 0,
              processing_info = None, processing_started_at = None, updated_at = 0\<rparr>,
             \<lparr>id_col = ''e'', name_col = ''doc_e.txt'', file_path = ''u/doc_e.txt'', file_type = ''txt'',
              file_size = 100, status = Ready, error_message = None, uploaded_by = ''u'',
              content_preview = None, page_count = Some 1, processing_progress = Some 0,
              processing_info = None, processing_started_at = None, updated_at = 0\<rparr>,
             \<lparr>id_col = ''f'', name_col = ''doc_f.txt'', file_path = ''u/doc_f.txt'', file_type = ''txt'',
              file_size = 100, status = Ready, error_message = None, uploaded_by = ''u'',
              content_preview = None, page_count = Some 1, processing_progress = Some 0,
              processing_info = None, processing_started_at = None, updated_at = 0\<rparr>],
          source_chunks = [\<lparr>source_id = ''a'', chunk_index = 0, content = ''refund a''\<rparr>,
             \<lparr>source_id = ''b'', chunk_index = 0, content = ''refund b''\<rparr>,
             \<lparr>source_id = ''c'', chunk_index = 0, content = ''refund c''\<rparr>,
             \<lparr>source_id = ''d'', chunk_index = 0, content = ''refund d''\<rparr>,
             \<lparr>source_id = ''e'', chunk_index = 0, content = ''refund e''\<rparr>,
             \<lparr>source_id = ''f'', chunk_index = 0, content = ''refund f''\<rparr>],
          ai_usage_logs = []\<rparr>;
       ids = [''a'', ''b'', ''c'', ''d'', ''e'', ''f''];
       R = searchRelevantChunks D ''refund'' ids
   in candidate_ids D ids = ids \<and> distinct ids \<and> ids ! 5 = ''f'' \<and>
      map result_source_id R = [''a'', ''b'', ''c'', ''d'', ''e''] \<and>
      ''f'' \<notin> set (map result_source_id R)"
proof -
  define D where "D = \<lparr>sources = [\<lparr>id_col = ''a'', name_col = ''doc_a.txt'', file_path = ''u/doc_a.txt'', file_type = ''txt'',
              file_size = 100, status = Ready, error_message = None, uploaded_by = ''u'',
              content_preview = None, page_count = Some 1, processing_progress = Some 0,
              processing_info = None, processing_started_at = None, updated_at = 0\<rparr>,
             \<lparr>id_col = ''b'', name_col = ''doc_b.txt'', file_path = ''u/doc_b.txt'', file_type = ''txt'',
              file_size = 100, status = Ready, error_message = None, uploaded_by = ''u'',
              content_preview = None, page_count = Some 1, processing_progress = Some 0,
              processing_info = None, processing_started_at = None, updated_at = 0\<rparr>,
             \<lparr>id_col = ''c'', name_col = ''doc_c.txt'', file_path = ''u/doc_c.txt'', file_type = ''txt'',
              file_size = 100, status = Ready, error_message = None, uploaded_by = ''u'',
              content_preview = None, page_count = Some 1, processing_progress = Some 0,
              processing_info = None, processing_started_at = None, updated_at = 0\<rparr>,
             \<lparr>id_col = ''d'', name_col = ''doc_d.txt'', file_path = ''u/doc_d.txt'', file_type = ''txt'',
              file_size = 100, status = Ready, error_message = None, uploaded_by = ''u'',
              content_preview = None, page_count = Some 1, processing_progress = Some 0,
              processing_info = None, processing_started_at = None, updated_at = 0\<rparr>,
             \<lparr>id_col = ''e'', name_col = ''doc_e.txt'', file_path = ''u/doc_e.txt'', file_type = ''txt'',
              file_size = 100, status = Ready, error_message = None, uploaded_by = ''u'',
              content_preview = None, page_count = Some 1, processing_progress = Some 0,
              processing_info = None, processing_started_at = None, updated_at = 0\<rparr>,
             \<lparr>id_col = ''f'', name_col = ''doc_f.txt'', file_path = ''u/doc_f.txt'', file_type = ''txt'',
              file_size = 100, status = Ready, error_message = None, uploaded_by = ''u'',
              content_preview = None, page_count = Some 1, processing_progress = Some 0,
              processing_info = None, processing_started_at = None, updated_at = 0\<rparr>],
          source_chunks = [\<lparr>source_id = ''a'', chunk_index = 0, content = ''refund a''\<rparr>,
             \<lparr>source_id = ''b'', chunk_index = 0, content = ''refund b''\<rparr>,
             \<lparr>source_id = ''c'', chunk_index = 0, content = ''refund c''\<rparr>,
             \<lparr>source_id = ''d'', chunk_index = 0, content = ''refund d''\<rparr>,
             \<lparr>source_id = ''e'', chunk_index = 0, content = ''refund e''\<rparr>,
             \<lparr>source_id = ''f'', chunk_index = 0, content = ''refund f''\<rparr>],
          ai_usage_logs = []\<rparr>"
  define ids where "ids = [''a'', ''b'', ''c'', ''d'', ''e'', ''f'']"
  have c: "candidate_ids D ids = ids" by (simp add: candidate_ids_def ids_def)
  have d: "distinct ids" "5 < length ids" "ids ! 5 = ''f''" by (simp_all add: ids_def)
  have m: "map result_source_id (searchRelevantChunks D ''refund'' ids) = [''a'', ''b'', ''c'', ''d'', ''e'']"
    unfolding D_def ids_def by (rule search_six_documents)
  from only_first_five_documents[of D "''refund''" ids] c d
  have "\<forall>r\<in>set (searchRelevantChunks D ''refund'' ids). result_source_id r \<noteq> ''f''"
    by (metis order_refl)
  then have "''f'' \<notin> set (map result_source_id (searchRelevantChunks D ''refund'' ids))" by auto
  with c d m have "candidate_ids D ids = ids \<and> distinct ids \<and> ids ! 5 = ''f'' \<and>
      map result_source_id (searchRelevantChunks D ''refund'' ids) = [''a'', ''b'', ''c'', ''d'', ''e''] \<and>
      ''f'' \<notin> set (map result_source_id (searchRelevantChunks D ''refund'' ids))" by blast
  then show ?thesis unfolding Let_def D_def ids_def .
qed

end
